theory Spec2Isabelle
  imports Main
begin


section \<open>JavaScript values used by the frontend\<close>

text \<open>
  Strings are lists of 8-bit characters; a JavaScript string outside ASCII is held here as
  its UTF-8 bytes.  The frontend only concatenates, compares and lower-cases the strings
  that the properties below talk about.

  An optional string field (\<^verbatim>\<open>linkedin?: string\<close>) is a \<open>string option\<close>, where \<open>None\<close>
  stands for an absent, \<^verbatim>\<open>undefined\<close> or \<^verbatim>\<open>null\<close> field.
\<close>

text \<open>JavaScript truthiness of an optional string: absent and \<^verbatim>\<open>""\<close> are falsy.\<close>

definition truthy :: "string option \<Rightarrow> bool" where
  "truthy s = (case s of None \<Rightarrow> False | Some v \<Rightarrow> v \<noteq> [])"

text \<open>\<^verbatim>\<open>s || d\<close> for an optional string \<open>s\<close> and a string \<open>d\<close>.\<close>

definition or_else :: "string option \<Rightarrow> string \<Rightarrow> string" where
  "or_else s d = (case s of None \<Rightarrow> d | Some v \<Rightarrow> if v = [] then d else v)"

text \<open>\<^verbatim>\<open>s ?? d\<close>: only an absent value is replaced.\<close>

definition nullish :: "'a option \<Rightarrow> 'a \<Rightarrow> 'a" where
  "nullish s d = (case s of None \<Rightarrow> d | Some v \<Rightarrow> v)"

text \<open>
  \<^verbatim>\<open>String.prototype.toLowerCase\<close> follows the case tables of Unicode, which are not part of
  the frontend.  Where the frontend lower-cases arbitrary text, the titles of projects, the
  lower-casing function is an argument \<open>lower\<close> of the model and the properties hold for
  every such function.

  \<open>toLowerCase\<close> below is the function on ASCII text: the letters \<open>A\<close>..\<open>Z\<close> are folded and
  every other byte is kept.  It is used where the result is only compared with the word
  \<^verbatim>\<open>"present"\<close>: a text lower-cases to that word exactly when it is made of those seven ASCII
  letters in either case, so there the two functions give the same answer.  It also
  stands for \<open>lower\<close> in the examples, whose titles are ASCII.
\<close>

definition lower_char :: "char \<Rightarrow> char" where
  "lower_char c =
     (let n = (of_char c :: nat) in if 65 \<le> n \<and> n \<le> 90 then char_of (n + 32) else c)"

definition toLowerCase :: "string \<Rightarrow> string" where
  "toLowerCase s = map lower_char s"

text \<open>\<^verbatim>\<open>String(n)\<close> for a non-negative integer: its decimal digits.\<close>

definition digit_char :: "nat \<Rightarrow> char" where
  "digit_char d = char_of (48 + d)"

fun string_of_nat :: "nat \<Rightarrow> string" where
  "string_of_nat n =
     (if n < 10 then [digit_char n] else string_of_nat (n div 10) @ [digit_char (n mod 10)])"

declare string_of_nat.simps [simp del]

text \<open>A thrown value.  Every throw on the paths modelled here is an \<^verbatim>\<open>Error\<close> object
  (\<^verbatim>\<open>new Error(...)\<close>, or the \<^verbatim>\<open>TypeError\<close>/\<^verbatim>\<open>SyntaxError\<close> of \<^verbatim>\<open>fetch\<close> and \<^verbatim>\<open>res.json()\<close>), so
  \<^verbatim>\<open>e instanceof Error ? e.message : e\<close> is its message.\<close>

datatype error = Error (message: string)


section \<open>Shared types (\<^verbatim>\<open>lib/types\<close>)\<close>

record ExperienceEntry =
  job_title :: string
  company :: string
  location :: "string option"
  start_date :: string
  end_date :: "string option"
  responsibilities :: "string list"

record EducationEntry =
  degree :: string
  institution :: string
  location :: "string option"
  graduation_date :: string
  gpa :: "string option"
  relevant_coursework :: "string list option"

record ProjectEntry =
  title :: string
  description :: string
  technologies :: "string list"
  link :: "string option"

record ResumeData =
  full_name :: string
  phone :: string
  email :: string
  linkedin :: "string option"
  location :: "string option"
  target_role :: string
  summary :: string
  skills :: "string list"
  experience :: "ExperienceEntry list"
  education :: "EducationEntry list"
  projects :: "ProjectEntry list"
  certifications :: "string list"

text \<open>\<^verbatim>\<open>GenerateResponse\<close>.  The score is handed on without being inspected, so its type
  is a parameter.\<close>

record 's GenerateResponse =
  resume_data :: ResumeData
  ats_score :: 's

record EnhanceResponse =
  enhanced_content :: string


section \<open>The API wrapper (\<^verbatim>\<open>lib/api.ts\<close>)\<close>

text \<open>
  What \<^verbatim>\<open>fetch\<close> resolves to.  \<open>body_text\<close> is the outcome of \<^verbatim>\<open>res.text()\<close> (\<open>None\<close> when it
  rejects) and \<open>body_json\<close> the outcome of \<^verbatim>\<open>res.json()\<close>.  A rejected \<^verbatim>\<open>fetch\<close> is \<open>Inl\<close>.

  The backend is not part of the frontend: what it answers is an argument of each
  function below, and the request that is sent plays no part.  The lines written by
  \<^verbatim>\<open>console.error\<close> are left out.
\<close>

record 'a Response =
  ok :: bool
  status :: nat
  statusText :: string
  body_text :: "string option"
  body_json :: "error + 'a"

definition checkedFetch :: "error + 'a Response \<Rightarrow> error + 'a Response" where
  "checkedFetch fetched =
     (case fetched of
        Inl e \<Rightarrow> Inl e
      | Inr res \<Rightarrow>
          if \<not> ok res then
            (let text = (case body_text res of Some t \<Rightarrow> t | None \<Rightarrow> ''<unreadable response>'')
             in Inl (Error (''API '' @ string_of_nat (status res) @ '' '' @ statusText res
                              @ '': '' @ text)))
          else Inr res)"

definition generateResume :: "error + 's GenerateResponse Response \<Rightarrow> error + 's GenerateResponse" where
  "generateResume fetched =
     (case checkedFetch fetched of Inl e \<Rightarrow> Inl e | Inr res \<Rightarrow> body_json res)"

definition enhanceSection :: "error + EnhanceResponse Response \<Rightarrow> error + EnhanceResponse" where
  "enhanceSection fetched =
     (case checkedFetch fetched of Inl e \<Rightarrow> Inl e | Inr res \<Rightarrow> body_json res)"


section \<open>The optimize page (\<^verbatim>\<open>app/optimize/page.tsx\<close>)\<close>

text \<open>
  The component state (without the uploaded file, which no handler below reads), with the
  messages shown by \<^verbatim>\<open>alert\<close> collected in \<open>alerts\<close>.  A handler takes the state and the
  outcome of the one request it awaits, and gives the state after its completion.
\<close>

record 's OptimizePage =
  jd :: string
  loading :: bool
  optimizing :: bool
  downloading :: bool
  enhancingSection :: "string option"
  original :: "ResumeData option"
  originalScore :: "'s option"
  optimized :: "ResumeData option"
  optimizedScore :: "'s option"
  alerts :: "string list"

text \<open>The map \<^verbatim>\<open>byTitle\<close>: a later \<^verbatim>\<open>set\<close> of the same key replaces the earlier entry.
  \<open>lower\<close> is \<^verbatim>\<open>toLowerCase\<close>.\<close>

definition byTitle :: "(string \<Rightarrow> string) \<Rightarrow> ProjectEntry list \<Rightarrow> (string \<rightharpoonup> ProjectEntry)" where
  "byTitle lower ps =
     fold (\<lambda>p m. if ProjectEntry.title p \<noteq> []
                  then m(lower (ProjectEntry.title p) \<mapsto> p) else m)
          ps Map.empty"

text \<open>The callback of \<^verbatim>\<open>merged.projects.map\<close>.\<close>

definition patch_project ::
  "(string \<Rightarrow> string) \<Rightarrow> (string \<rightharpoonup> ProjectEntry) \<Rightarrow> ProjectEntry \<Rightarrow> ProjectEntry" where
  "patch_project lower m p =
     (case m (lower (or_else (Some (ProjectEntry.title p)) [])) of
        None \<Rightarrow> p
      | Some orig \<Rightarrow>
          if \<not> truthy (ProjectEntry.link p) \<and> truthy (ProjectEntry.link orig)
          then p\<lparr>ProjectEntry.link := ProjectEntry.link orig\<rparr> else p)"

text \<open>Lines 63 to 79 of \<^verbatim>\<open>handleOptimize\<close>: the merge of the rewrite with the original.
  Both \<^verbatim>\<open>projects\<close> fields are arrays, which are truthy even when empty.\<close>

definition merge_back :: "(string \<Rightarrow> string) \<Rightarrow> ResumeData \<Rightarrow> ResumeData \<Rightarrow> ResumeData" where
  "merge_back lower orig rd =
     rd\<lparr>linkedin := Some (or_else (linkedin rd) (or_else (linkedin orig) [])),
        ResumeData.location :=
          Some (or_else (ResumeData.location rd) (or_else (ResumeData.location orig) [])),
        ResumeData.projects :=
          map (patch_project lower (byTitle lower (ResumeData.projects orig)))
              (ResumeData.projects rd)\<rparr>"

text \<open>
  \<^verbatim>\<open>handleOptimize\<close>.  A handler of this page belongs to one rendering and holds the state of
  that rendering: \<open>clicked\<close> is the state in which the button was clicked, and \<open>st\<close> the
  state in which the request completes, which the setters change.  Of \<open>clicked\<close> this
  handler reads \<^verbatim>\<open>original\<close> alone.  Without an original it returns at once, and \<open>st\<close> is then
  \<open>clicked\<close> itself.
\<close>

definition handleOptimize ::
  "(string \<Rightarrow> string) \<Rightarrow> 's OptimizePage \<Rightarrow> 's OptimizePage
     \<Rightarrow> error + 's GenerateResponse Response \<Rightarrow> 's OptimizePage" where
  "handleOptimize lower clicked st fetched =
     (case original clicked of
        None \<Rightarrow> st
      | Some orig \<Rightarrow>
          (case generateResume fetched of
             Inr res \<Rightarrow>
               st\<lparr>optimized := Some (merge_back lower orig (resume_data res)),
                  optimizedScore := Some (ats_score res),
                  optimizing := False\<rparr>
           | Inl e \<Rightarrow>
               st\<lparr>OptimizePage.alerts :=
                    OptimizePage.alerts st @ [''Optimization failed: '' @ message e],
                  optimizing := False\<rparr>))"

text \<open>\<^verbatim>\<open>s.split(sep)\<close> for a separator that is one character out of a set (\<^verbatim>\<open>"\n"\<close>, or the
  class \<^verbatim>\<open>/[-/]/\<close>): the pieces between the separators, always at least one piece.\<close>

fun split_by :: "(char \<Rightarrow> bool) \<Rightarrow> string \<Rightarrow> string list" where
  "split_by sep [] = [[]]"
| "split_by sep (c # cs) =
     (if sep c then [] # split_by sep cs
      else (case split_by sep cs of [] \<Rightarrow> [[c]] | piece # pieces \<Rightarrow> (c # piece) # pieces))"

definition newline :: char where
  "newline = CHR 0x0A"

text \<open>\<^verbatim>\<open>s.split("\n").filter(Boolean)\<close>: the non-empty lines.\<close>

definition nonempty_lines :: "string \<Rightarrow> string list" where
  "nonempty_lines s = filter (\<lambda>l. l \<noteq> []) (split_by (\<lambda>c. c = newline) s)"

text \<open>
  \<^verbatim>\<open>handleEnhance\<close> of the optimize page.  It holds the \<^verbatim>\<open>original\<close> and \<^verbatim>\<open>optimized\<close> of the
  state \<open>clicked\<close> in which the button was clicked.  While the request is under way the
  text areas and the other button stay usable, so the state \<open>st\<close> in which the request
  completes can differ from \<open>clicked\<close>.  On success \<^verbatim>\<open>setOptimized(updated)\<close> stores a copy of the resume of
  \<open>clicked\<close>, with the named section replaced, into \<open>st\<close>.  Without an original the handler
  returns at once, and \<open>st\<close> is then \<open>clicked\<close> itself.  \<open>content\<close> only goes into the
  request.
\<close>

definition handleEnhance ::
  "'s OptimizePage \<Rightarrow> 's OptimizePage \<Rightarrow> string \<Rightarrow> string
     \<Rightarrow> error + EnhanceResponse Response \<Rightarrow> 's OptimizePage" where
  "handleEnhance clicked st section content fetched =
     (case original clicked of
        None \<Rightarrow> st
      | Some orig \<Rightarrow>
          (case enhanceSection fetched of
             Inr res \<Rightarrow>
               (case optimized clicked of
                  None \<Rightarrow> st\<lparr>OptimizePage.enhancingSection := None\<rparr>
                | Some opt \<Rightarrow>
                    (let updated = opt;
                         updated = (if section = ''summary''
                                    then updated\<lparr>ResumeData.summary := enhanced_content res\<rparr>
                                    else updated);
                         updated = (if section = ''skills''
                                    then updated\<lparr>ResumeData.skills :=
                                           nonempty_lines (or_else (Some (enhanced_content res)) [])\<rparr>
                                    else updated)
                     in st\<lparr>optimized := Some updated, OptimizePage.enhancingSection := None\<rparr>))
           | Inl e \<Rightarrow>
               st\<lparr>OptimizePage.alerts :=
                    OptimizePage.alerts st @ [''Enhancement failed: '' @ message e],
                  OptimizePage.enhancingSection := None\<rparr>))"

text \<open>The click itself: \<^verbatim>\<open>setEnhancingSection(section)\<close>, when there is an original.\<close>

definition enhance_clicked :: "'s OptimizePage \<Rightarrow> string \<Rightarrow> 's OptimizePage" where
  "enhance_clicked st section =
     (case original st of
        None \<Rightarrow> st
      | Some orig \<Rightarrow> st\<lparr>OptimizePage.enhancingSection := Some section\<rparr>)"

text \<open>The \<^verbatim>\<open>onChange\<close> of the skills text area, which is rendered when there is an optimized
  resume: \<^verbatim>\<open>setOptimized({...optimized, skills: e.target.value.split('\n')})\<close>.\<close>

definition skills_edited :: "'s OptimizePage \<Rightarrow> string \<Rightarrow> 's OptimizePage" where
  "skills_edited st val =
     (case optimized st of
        None \<Rightarrow> st
      | Some opt \<Rightarrow>
          st\<lparr>optimized := Some (opt\<lparr>ResumeData.skills := split_by (\<lambda>c. c = newline) val\<rparr>)\<rparr>)"


section \<open>The create page\<close>

record EduEntry =
  degree :: string
  institution :: string
  location :: string
  graduation_date :: string
  gpa :: string

record ExpEntry =
  job_title :: string
  company :: string
  location :: string
  start_date :: string
  end_date :: string
  responsibilities :: string

record ProjEntry =
  title :: string
  description :: string
  technologies :: string
  link :: string

definition emptyEdu :: EduEntry where
  "emptyEdu = \<lparr>EduEntry.degree = [], EduEntry.institution = [], EduEntry.location = [],
               EduEntry.graduation_date = [], EduEntry.gpa = []\<rparr>"

definition emptyExp :: ExpEntry where
  "emptyExp = \<lparr>ExpEntry.job_title = [], ExpEntry.company = [], ExpEntry.location = [],
               ExpEntry.start_date = [], ExpEntry.end_date = [], ExpEntry.responsibilities = []\<rparr>"

definition emptyProj :: ProjEntry where
  "emptyProj = \<lparr>ProjEntry.title = [], ProjEntry.description = [], ProjEntry.technologies = [],
                ProjEntry.link = []\<rparr>"

text \<open>The three punctuation marks of the templates that are not ASCII, as UTF-8.\<close>

definition en_dash :: string where
  "en_dash = [CHR 0xE2, CHR 0x80, CHR 0x93]"

definition em_dash :: string where
  "em_dash = [CHR 0xE2, CHR 0x80, CHR 0x94]"

definition bullet :: string where
  "bullet = [CHR 0xE2, CHR 0x80, CHR 0xA2]"

text \<open>White space as \<^verbatim>\<open>trim\<close> and \<^verbatim>\<open>parseInt\<close> skip it, on ASCII: tab, line feed, vertical
  tab, form feed, carriage return and space.\<close>

definition is_space :: "char \<Rightarrow> bool" where
  "is_space c = (of_char c \<in> {9, 10, 11, 12, 13, 32 :: nat})"

definition trim :: "string \<Rightarrow> string" where
  "trim s = rev (dropWhile is_space (rev (dropWhile is_space s)))"

text \<open>\<^verbatim>\<open>parts.join(sep)\<close>.\<close>

fun join :: "string \<Rightarrow> string list \<Rightarrow> string" where
  "join sep [] = []"
| "join sep [x] = x"
| "join sep (x # y # ys) = x @ sep @ join sep (y # ys)"

text \<open>The line pushed for one education entry, and the lines for one experience entry and
  for one project, in \<^verbatim>\<open>buildExistingResumeText\<close>.\<close>

definition education_line :: "EduEntry \<Rightarrow> string" where
  "education_line e =
     ''- '' @ EduEntry.degree e @ '' from '' @ EduEntry.institution e
     @ (if EduEntry.location e \<noteq> [] then '', '' @ EduEntry.location e else [])
     @ (if EduEntry.graduation_date e \<noteq> [] then '' ('' @ EduEntry.graduation_date e @ '')'' else [])
     @ (if EduEntry.gpa e \<noteq> [] then '' '' @ em_dash @ '' GPA: '' @ EduEntry.gpa e else [])"

definition experience_line :: "ExpEntry \<Rightarrow> string" where
  "experience_line e =
     ''- '' @ ExpEntry.job_title e @ '' at '' @ ExpEntry.company e
     @ (if ExpEntry.location e \<noteq> [] then '', '' @ ExpEntry.location e else [])
     @ '' | '' @ or_else (Some (ExpEntry.start_date e)) ''N/A''
     @ '' '' @ en_dash @ '' '' @ or_else (Some (ExpEntry.end_date e)) ''Present''"

definition experience_lines :: "ExpEntry \<Rightarrow> string list" where
  "experience_lines e =
     experience_line e
     # (if trim (ExpEntry.responsibilities e) \<noteq> []
        then map (\<lambda>r. ''  '' @ bullet @ '' '' @ trim r) (nonempty_lines (ExpEntry.responsibilities e))
        else [])"

definition project_lines :: "ProjEntry \<Rightarrow> string list" where
  "project_lines p =
     (''- '' @ ProjEntry.title p
        @ (if ProjEntry.link p \<noteq> [] then '' ('' @ ProjEntry.link p @ '')'' else []))
     # (if ProjEntry.description p \<noteq> [] then [''  '' @ ProjEntry.description p] else [])
     @ (if trim (ProjEntry.technologies p) \<noteq> []
        then [''  Technologies: '' @ ProjEntry.technologies p] else [])"

text \<open>The array \<^verbatim>\<open>parts\<close> at the end of \<^verbatim>\<open>buildExistingResumeText\<close>.\<close>

definition existing_resume_parts :: "EduEntry list \<Rightarrow> ExpEntry list \<Rightarrow> ProjEntry list \<Rightarrow> string list" where
  "existing_resume_parts edus exps projs =
     (let filledEdu = filter (\<lambda>e. EduEntry.degree e \<noteq> [] \<or> EduEntry.institution e \<noteq> []) edus;
          filledExp = filter (\<lambda>e. ExpEntry.job_title e \<noteq> [] \<or> ExpEntry.company e \<noteq> []) exps;
          filledProj = filter (\<lambda>p. ProjEntry.title p \<noteq> []) projs
      in (if filledEdu \<noteq> [] then ''EDUCATION:'' # map education_line filledEdu else [])
         @ (if filledExp \<noteq> []
            then (newline # ''EXPERIENCE:'') # concat (map experience_lines filledExp) else [])
         @ (if filledProj \<noteq> []
            then (newline # ''PROJECTS:'') # concat (map project_lines filledProj) else []))"

definition buildExistingResumeText :: "EduEntry list \<Rightarrow> ExpEntry list \<Rightarrow> ProjEntry list \<Rightarrow> string option" where
  "buildExistingResumeText edus exps projs =
     (let parts = existing_resume_parts edus exps projs
      in if parts \<noteq> [] then Some (join [newline] parts) else None)"

subsection \<open>Dates in \<^verbatim>\<open>updateExp\<close>\<close>

text \<open>
  \<^verbatim>\<open>parseInt(s)\<close> without a radix: leading white space, an optional sign, an optional
  \<^verbatim>\<open>0x\<close> that selects base 16, then the longest run of digits; \<open>None\<close> is \<^verbatim>\<open>NaN\<close>.
\<close>

definition digit_value :: "char \<Rightarrow> nat option" where
  "digit_value c =
     (let n = (of_char c :: nat) in
      if 48 \<le> n \<and> n \<le> 57 then Some (n - 48)
      else if 97 \<le> n \<and> n \<le> 122 then Some (n - 87)
      else if 65 \<le> n \<and> n \<le> 90 then Some (n - 55)
      else None)"

definition is_digit_in :: "nat \<Rightarrow> char \<Rightarrow> bool" where
  "is_digit_in radix c = (case digit_value c of None \<Rightarrow> False | Some d \<Rightarrow> d < radix)"

definition digits_value :: "nat \<Rightarrow> string \<Rightarrow> nat" where
  "digits_value radix ds =
     foldl (\<lambda>acc c. case digit_value c of None \<Rightarrow> acc | Some d \<Rightarrow> acc * radix + d) 0 ds"

definition parseInt :: "string \<Rightarrow> int option" where
  "parseInt s =
     (let s1 = dropWhile is_space s;
          sign = (if take 1 s1 = ''-'' then - 1 else 1 :: int);
          s2 = (if take 1 s1 = ''-'' \<or> take 1 s1 = ''+'' then drop 1 s1 else s1);
          hex = (take 2 s2 = ''0x'' \<or> take 2 s2 = ''0X'');
          radix = (if hex then 16 else 10);
          s3 = (if hex then drop 2 s2 else s2);
          z = takeWhile (is_digit_in radix) s3
      in if z = [] then None else Some (sign * int (digits_value radix z)))"

text \<open>
  \<^verbatim>\<open>new Date(year, monthIndex)\<close> is local midnight on the first day of a month.  It is
  held as the number of that month, counted from January of the year 0, and \<open>None\<close> is an
  Invalid Date.  A year from 0 to 99 means 1900 to 1999; the month index may lie outside
  0..11 and then carries into the year; a date outside the range of time values (20 April
  -271821 to 13 September 275760) is invalid, and so is one made from \<^verbatim>\<open>NaN\<close>.  Two such
  dates are in the order of their month numbers, and a comparison with an Invalid Date is
  false.
\<close>

type_synonym Date = "int option"

definition new_Date :: "int option \<Rightarrow> int option \<Rightarrow> Date" where
  "new_Date year monthIndex =
     (case year of
        None \<Rightarrow> None
      | Some y \<Rightarrow>
          (case monthIndex of
             None \<Rightarrow> None
           | Some m \<Rightarrow>
               (let yr = (if 0 \<le> y \<and> y \<le> 99 then 1900 + y else y);
                    month = 12 * yr + m
                in if 12 * (- 271821) + 4 \<le> month \<and> month \<le> 12 * 275760 + 8
                   then Some month else None)))"

definition date_gt :: "Date \<Rightarrow> Date \<Rightarrow> bool" where
  "date_gt a b = (case a of None \<Rightarrow> False | Some x \<Rightarrow> (case b of None \<Rightarrow> False | Some y \<Rightarrow> x > y))"

text \<open>The local function \<^verbatim>\<open>parseDate\<close>; \<open>None\<close> is \<^verbatim>\<open>null\<close>.  Neither \<^verbatim>\<open>parseInt\<close> nor
  \<^verbatim>\<open>new Date\<close> throws, so the \<^verbatim>\<open>catch\<close> is never entered.\<close>

definition parseDate :: "string \<Rightarrow> Date option" where
  "parseDate d =
     (let parts = split_by (\<lambda>c. c = CHR ''-'' \<or> c = CHR ''/'') d
      in if length parts = 2 \<and> parts ! 0 \<noteq> [] \<and> parts ! 1 \<noteq> []
         then Some (new_Date (parseInt (parts ! 1))
                             (map_option (\<lambda>m. m - 1) (parseInt (parts ! 0))))
         else None)"

subsection \<open>State and handlers\<close>

record 's CreatePage =
  step :: nat
  loading :: bool
  enhancingSection :: "string option"
  fullName :: string
  phone :: string
  email :: string
  targetRole :: string
  jobDescription :: string
  showEducation :: bool
  showExperience :: bool
  showProjects :: bool
  education :: "EduEntry list"
  experience :: "ExpEntry list"
  projects :: "ProjEntry list"
  resumeData :: "ResumeData option"
  atsScore :: "'s option"
  summary :: string
  skills :: string
  downloading :: bool
  alerts :: "string list"

text \<open>\<^verbatim>\<open>keyof ExpEntry\<close>, and \<^verbatim>\<open>{ ...e, [field]: value }\<close>.\<close>

datatype ExpField = Job_title | Company | Location | Start_date | End_date | Responsibilities

fun set_field :: "ExpEntry \<Rightarrow> ExpField \<Rightarrow> string \<Rightarrow> ExpEntry" where
  "set_field e Job_title v = e\<lparr>ExpEntry.job_title := v\<rparr>"
| "set_field e Company v = e\<lparr>ExpEntry.company := v\<rparr>"
| "set_field e Location v = e\<lparr>ExpEntry.location := v\<rparr>"
| "set_field e Start_date v = e\<lparr>ExpEntry.start_date := v\<rparr>"
| "set_field e End_date v = e\<lparr>ExpEntry.end_date := v\<rparr>"
| "set_field e Responsibilities v = e\<lparr>ExpEntry.responsibilities := v\<rparr>"

text \<open>
  \<^verbatim>\<open>updateExp\<close>.  The index is that of a rendered entry.  For an index beyond the list the
  date branch of the source would write a sparse array holding an entry with a single
  field, which is no list of \<^verbatim>\<open>ExpEntry\<close>; the model answers \<open>None\<close> there.
\<close>

definition updateExp :: "'s CreatePage \<Rightarrow> nat \<Rightarrow> ExpField \<Rightarrow> string \<Rightarrow> 's CreatePage option" where
  "updateExp st i field val =
     (let prev = CreatePage.experience st in
      if field = Start_date \<or> field = End_date then
        (if i < length prev then
           (let entry = set_field (prev ! i) field val;
                newData = prev[i := entry]
            in if ExpEntry.start_date entry \<noteq> [] \<and> ExpEntry.end_date entry \<noteq> []
                  \<and> toLowerCase (ExpEntry.end_date entry) \<noteq> ''present''
               then
                 (let start = parseDate (ExpEntry.start_date entry);
                      end = parseDate (ExpEntry.end_date entry)
                  in if (case start of None \<Rightarrow> False
                         | Some s \<Rightarrow> (case end of None \<Rightarrow> False | Some e \<Rightarrow> date_gt s e))
                     then Some (st\<lparr>CreatePage.alerts :=
                                      CreatePage.alerts st @ [''Start date cannot be after end date.'']\<rparr>)
                     else Some (st\<lparr>CreatePage.experience := newData\<rparr>))
               else Some (st\<lparr>CreatePage.experience := newData\<rparr>))
         else None)
      else
        Some (st\<lparr>CreatePage.experience :=
                    map (\<lambda>(idx, e). if idx = i then set_field e field val else e) (enumerate 0 prev)\<rparr>))"

text \<open>\<^verbatim>\<open>handleGenerate\<close>.  The text built from the form only goes into the request.\<close>

definition handleGenerate ::
  "'s CreatePage \<Rightarrow> error + 's GenerateResponse Response \<Rightarrow> 's CreatePage" where
  "handleGenerate st fetched =
     (case generateResume fetched of
        Inr res \<Rightarrow>
          (let rd = resume_data res
           in st\<lparr>resumeData := Some rd,
                 atsScore := Some (ats_score res),
                 CreatePage.summary := ResumeData.summary rd,
                 CreatePage.skills := join [newline] (ResumeData.skills rd),
                 step := 2,
                 CreatePage.loading := False\<rparr>)
      | Inl e \<Rightarrow>
          st\<lparr>CreatePage.alerts := CreatePage.alerts st @ [''Generation failed: '' @ message e],
             CreatePage.loading := False\<rparr>)"

text \<open>\<^verbatim>\<open>handleEnhance\<close> of the create page: a failed request is dropped silently.\<close>

definition create_handleEnhance ::
  "'s CreatePage \<Rightarrow> string \<Rightarrow> string \<Rightarrow> error + EnhanceResponse Response \<Rightarrow> 's CreatePage" where
  "create_handleEnhance st section content fetched =
     (case enhanceSection fetched of
        Inr res \<Rightarrow>
          (let st1 = (if section = ''summary''
                      then st\<lparr>CreatePage.summary := enhanced_content res\<rparr> else st);
               st2 = (if section = ''skills''
                      then st1\<lparr>CreatePage.skills := enhanced_content res\<rparr> else st1)
           in st2\<lparr>CreatePage.enhancingSection := None\<rparr>)
      | Inl e \<Rightarrow> st\<lparr>CreatePage.enhancingSection := None\<rparr>)"


section \<open>The raw resume form (\<^verbatim>\<open>ResumeForm\<close>)\<close>

definition emptyResume :: ResumeData where
  "emptyResume =
     \<lparr>ResumeData.full_name = [], ResumeData.phone = [], ResumeData.email = [],
      linkedin = None, ResumeData.location = None, ResumeData.target_role = [],
      ResumeData.summary = [], ResumeData.skills = [], ResumeData.experience = [],
      ResumeData.education = [], ResumeData.projects = [], ResumeData.certifications = []\<rparr>"

text \<open>
  The sample payload as \<^verbatim>\<open>loadSample\<close> reads it: ten fields, each of which may be missing
  or \<^verbatim>\<open>null\<close>.  A field that is there has the type that \<^verbatim>\<open>ResumeData\<close> gives it.
\<close>

record Sample =
  full_name :: "string option"
  phone :: "string option"
  email :: "string option"
  target_role :: "string option"
  summary :: "string option"
  skills :: "string list option"
  experience :: "ExperienceEntry list option"
  education :: "EducationEntry list option"
  projects :: "ProjectEntry list option"
  certifications :: "string list option"

record ResumeForm =
  data :: ResumeData
  alerts :: "string list"

text \<open>The object literal handed to \<^verbatim>\<open>setData\<close>.\<close>

definition sample_resume :: "Sample \<Rightarrow> ResumeData" where
  "sample_resume sample =
     \<lparr>ResumeData.full_name = nullish (Sample.full_name sample) [],
      ResumeData.phone = nullish (Sample.phone sample) [],
      ResumeData.email = nullish (Sample.email sample) [],
      linkedin = None,
      ResumeData.location = None,
      ResumeData.target_role = nullish (Sample.target_role sample) [],
      ResumeData.summary = nullish (Sample.summary sample) [],
      ResumeData.skills = nullish (Sample.skills sample) [],
      ResumeData.experience = nullish (Sample.experience sample) [],
      ResumeData.education = nullish (Sample.education sample) [],
      ResumeData.projects = nullish (Sample.projects sample) [],
      ResumeData.certifications = nullish (Sample.certifications sample) []\<rparr>"

definition loadSample :: "ResumeForm \<Rightarrow> error + Sample Response \<Rightarrow> ResumeForm" where
  "loadSample st fetched =
     (let failed = (\<lambda>e. st\<lparr>ResumeForm.alerts :=
                             ResumeForm.alerts st @ [''Failed to load sample payload: '' @ message e]\<rparr>)
      in case fetched of
           Inl e \<Rightarrow> failed e
         | Inr res \<Rightarrow>
             if \<not> ok res
             then failed (Error (''Failed to load sample: '' @ string_of_nat (status res)))
             else (case body_json res of
                     Inl e \<Rightarrow> failed e
                   | Inr sample \<Rightarrow> st\<lparr>data := sample_resume sample\<rparr>))"

definition clear :: "ResumeForm \<Rightarrow> ResumeForm" where
  "clear st = st\<lparr>data := emptyResume\<rparr>"

text \<open>
  \<^verbatim>\<open>loadSample\<close> of the create page reads the same payload into the form.  An entry of the
  payload becomes an entry of the form; a list of the payload that is missing leaves the
  list of the form as it is.
\<close>

definition sample_exp :: "ExperienceEntry \<Rightarrow> ExpEntry" where
  "sample_exp ex =
     \<lparr>ExpEntry.job_title = or_else (Some (ExperienceEntry.job_title ex)) [],
      ExpEntry.company = or_else (Some (ExperienceEntry.company ex)) [],
      ExpEntry.location = or_else (ExperienceEntry.location ex) [],
      ExpEntry.start_date = or_else (Some (ExperienceEntry.start_date ex)) [],
      ExpEntry.end_date = or_else (ExperienceEntry.end_date ex) [],
      ExpEntry.responsibilities = join [newline] (ExperienceEntry.responsibilities ex)\<rparr>"

definition sample_edu :: "EducationEntry \<Rightarrow> EduEntry" where
  "sample_edu ed =
     \<lparr>EduEntry.degree = or_else (Some (EducationEntry.degree ed)) [],
      EduEntry.institution = or_else (Some (EducationEntry.institution ed)) [],
      EduEntry.location = or_else (EducationEntry.location ed) [],
      EduEntry.graduation_date = or_else (Some (EducationEntry.graduation_date ed)) [],
      EduEntry.gpa = or_else (EducationEntry.gpa ed) []\<rparr>"

definition sample_proj :: "ProjectEntry \<Rightarrow> ProjEntry" where
  "sample_proj p =
     \<lparr>ProjEntry.title = or_else (Some (ProjectEntry.title p)) [],
      ProjEntry.description = or_else (Some (ProjectEntry.description p)) [],
      ProjEntry.technologies = join '', '' (ProjectEntry.technologies p),
      ProjEntry.link = or_else (ProjectEntry.link p) []\<rparr>"

definition create_loadSample :: "'s CreatePage \<Rightarrow> error + Sample Response \<Rightarrow> 's CreatePage" where
  "create_loadSample st fetched =
     (let failed = (\<lambda>e. st\<lparr>CreatePage.alerts :=
                             CreatePage.alerts st @ [''Failed to load sample payload: '' @ message e]\<rparr>)
      in case fetched of
           Inl e \<Rightarrow> failed e
         | Inr res \<Rightarrow>
             if \<not> ok res
             then failed (Error (''Failed to load sample: '' @ string_of_nat (status res)))
             else (case body_json res of
                     Inl e \<Rightarrow> failed e
                   | Inr sample \<Rightarrow>
                       (let st1 = st\<lparr>fullName := nullish (Sample.full_name sample) [],
                                      CreatePage.phone := nullish (Sample.phone sample) [],
                                      CreatePage.email := nullish (Sample.email sample) [],
                                      targetRole := nullish (Sample.target_role sample) []\<rparr>;
                            st2 = (case Sample.experience sample of
                                     None \<Rightarrow> st1
                                   | Some exs \<Rightarrow>
                                       st1\<lparr>CreatePage.experience := map sample_exp exs,
                                           showExperience := True\<rparr>);
                            st3 = (case Sample.education sample of
                                     None \<Rightarrow> st2
                                   | Some eds \<Rightarrow>
                                       st2\<lparr>CreatePage.education := map sample_edu eds,
                                           showEducation := True\<rparr>);
                            st4 = (case Sample.projects sample of
                                     None \<Rightarrow> st3
                                   | Some ps \<Rightarrow>
                                       st3\<lparr>CreatePage.projects := map sample_proj ps,
                                           showProjects := True\<rparr>)
                        in st4)))"


section \<open>The resume preview (\<^verbatim>\<open>components/resume-preview.tsx\<close>)\<close>

text \<open>
  What a component renders: text nodes and elements with a tag, attributes and children.
  An expression that React renders as nothing (\<^verbatim>\<open>undefined\<close>, \<^verbatim>\<open>false\<close>, \<^verbatim>\<open>""\<close>) adds no
  child.  The \<^verbatim>\<open>key\<close> of a list item is not part of the output.
\<close>

datatype html = Text string | Elem string "(string \<times> string) list" "html list"

definition text_opt :: "string option \<Rightarrow> html list" where
  "text_opt s = (case s of None \<Rightarrow> [] | Some v \<Rightarrow> if v = [] then [] else [Text v])"

text \<open>The callback of \<^verbatim>\<open>data.experience.map\<close>.\<close>

definition experience_item :: "ExperienceEntry \<Rightarrow> html" where
  "experience_item exp =
     Elem ''div'' []
       [Elem ''div'' [(''className'', ''flex justify-between items-baseline'')]
          [Elem ''span'' [(''className'', ''font-bold'')] (text_opt (Some (ExperienceEntry.company exp))),
           Elem ''span'' [(''className'', ''font-bold text-right'')]
             (text_opt (ExperienceEntry.location exp))],
        Elem ''div'' [(''className'', ''flex justify-between items-baseline mb-1'')]
          [Elem ''span'' [(''className'', ''italic'')] (text_opt (Some (ExperienceEntry.job_title exp))),
           Elem ''span'' [(''className'', ''italic text-right'')]
             (text_opt (Some (ExperienceEntry.start_date exp))
              @ [Text ('' '' @ en_dash @ '' ''),
                 Text (or_else (ExperienceEntry.end_date exp) ''Present'')])],
        Elem ''ul'' [(''className'', ''list-disc pl-5 space-y-0.5'')]
          (map (\<lambda>r. Elem ''li'' [(''className'', ''pl-1'')] (text_opt (Some r)))
               (ExperienceEntry.responsibilities exp))]"

definition section_heading :: "string \<Rightarrow> html" where
  "section_heading name =
     Elem ''h2'' [(''className'', ''text-[10.5pt] font-bold uppercase border-b border-black mb-1'')]
       [Text name]"

text \<open>The experience section of \<^verbatim>\<open>ResumePreview\<close>: nothing for an empty list.\<close>

definition experience_section :: "ResumeData \<Rightarrow> html list" where
  "experience_section d =
     (if length (ResumeData.experience d) > 0
      then [Elem ''section'' [(''className'', ''mb-4'')]
              [section_heading ''Experience'',
               Elem ''div'' [(''className'', ''space-y-3'')]
                 (map experience_item (ResumeData.experience d))]]
      else [])"

text \<open>\<^verbatim>\<open>proj.link && proj.link.startsWith("http")\<close>, as truthiness.\<close>

definition hasLink :: "ProjectEntry \<Rightarrow> bool" where
  "hasLink proj =
     (case ProjectEntry.link proj of None \<Rightarrow> False | Some l \<Rightarrow> l \<noteq> [] \<and> take 4 l = ''http'')"

text \<open>The callback of \<^verbatim>\<open>data.projects.map\<close>.\<close>

definition project_item :: "ProjectEntry \<Rightarrow> html" where
  "project_item proj =
     (let techs = join '', '' (ProjectEntry.technologies proj) in
      Elem ''div'' []
        ([Elem ''div'' [(''className'', ''flex justify-between items-baseline'')]
            (Elem ''span'' [(''className'', ''font-bold'')] (text_opt (Some (ProjectEntry.title proj)))
             # (if hasLink proj
                then [Elem ''a'' [(''href'', or_else (ProjectEntry.link proj) []),
                                 (''target'', ''_blank''), (''rel'', ''noreferrer''),
                                 (''className'', ''text-blue-600 font-bold underline text-[9.5pt]'')]
                        [Text ''GitHub Link'']]
                else []))]
         @ (if techs \<noteq> []
            then [Elem ''div'' [(''className'', ''italic mb-1'')] [Text ''Technologies: '', Text techs]]
            else [])
         @ (if ProjectEntry.description proj \<noteq> []
            then [Elem ''ul'' [(''className'', ''list-disc pl-5 space-y-0.5'')]
                    [Elem ''li'' [(''className'', ''pl-1'')] [Text (ProjectEntry.description proj)]]]
            else [])))"

definition projects_section :: "ResumeData \<Rightarrow> html list" where
  "projects_section d =
     (if length (ResumeData.projects d) > 0
      then [Elem ''section'' [(''className'', ''mb-4'')]
              [section_heading ''Projects'',
               Elem ''div'' [(''className'', ''space-y-3'')]
                 (map project_item (ResumeData.projects d))]]
      else [])"

text \<open>The hyperlinks of a rendered tree, and its text outside hyperlinks, in document order.\<close>

fun anchors :: "html \<Rightarrow> html list" where
  "anchors (Text t) = []"
| "anchors (Elem tag attrs kids) =
     (if tag = ''a'' then [Elem tag attrs kids] else concat (map anchors kids))"

fun plain_text :: "html \<Rightarrow> string list" where
  "plain_text (Text t) = [t]"
| "plain_text (Elem tag attrs kids) =
     (if tag = ''a'' then [] else concat (map plain_text kids))"


section \<open>Notions used to state the properties\<close>

text \<open>The projects of the original whose title is not empty and equals \<open>t\<close> when both are
  lower-cased, in their order.\<close>

definition title_matches :: "(string \<Rightarrow> string) \<Rightarrow> string \<Rightarrow> ProjectEntry list \<Rightarrow> ProjectEntry list" where
  "title_matches lower t ps =
     filter (\<lambda>q. ProjectEntry.title q \<noteq> [] \<and> lower (ProjectEntry.title q) = lower t) ps"

text \<open>What stands for an end date on the page or in the text: the date itself, or the
  word Present when there is none.\<close>

definition shown_end :: "string option \<Rightarrow> string" where
  "shown_end d = (case d of None \<Rightarrow> ''Present'' | Some v \<Rightarrow> if v = [] then ''Present'' else v)"

text \<open>
  The text that \<^verbatim>\<open>ReactDatePicker\<close> hands to \<^verbatim>\<open>updateExp\<close> for month \<open>m\<close> of year \<open>y\<close>:
  \<^verbatim>\<open>format(date, "MM/yyyy")\<close>, two digits for the month and at least four for the year.
\<close>

definition pad_start :: "nat \<Rightarrow> string \<Rightarrow> string" where
  "pad_start n s = replicate (n - length s) (CHR ''0'') @ s"

definition format_MM_yyyy :: "nat \<Rightarrow> nat \<Rightarrow> string" where
  "format_MM_yyyy m y = pad_start 2 (string_of_nat m) @ ''/'' @ pad_start 4 (string_of_nat y)"

definition is_decimal :: "char \<Rightarrow> bool" where
  "is_decimal c = (48 \<le> (of_char c :: nat) \<and> (of_char c :: nat) \<le> 57)"


section \<open>Example data\<close>

definition project :: "string \<Rightarrow> string option \<Rightarrow> ProjectEntry" where
  "project t l = \<lparr>ProjectEntry.title = t, ProjectEntry.description = [],
                   ProjectEntry.technologies = [], ProjectEntry.link = l\<rparr>"

definition with_projects :: "ProjectEntry list \<Rightarrow> ResumeData" where
  "with_projects ps = emptyResume\<lparr>ResumeData.projects := ps\<rparr>"

text \<open>An original with an untitled project, and with two projects of one title of which
  only the first has a link; and a rewrite that lost the links.\<close>

definition shadowed_original :: ResumeData where
  "shadowed_original =
     with_projects [project [] (Some ''http://e.example''),
                    project ''App'' (Some ''http://a.example''),
                    project ''app'' None]"

definition shadowed_rewrite :: ResumeData where
  "shadowed_rewrite = with_projects [project [] None, project ''APP'' None]"

text \<open>An original, a rewrite that changed its contact fields and its link, and a rewrite
  that dropped them.\<close>

definition altered_original :: ResumeData where
  "altered_original =
     (with_projects [project ''App'' (Some ''http://a.example'')])
       \<lparr>linkedin := Some ''https://linkedin.com/in/ada'', ResumeData.location := Some ''London''\<rparr>"

definition altered_rewrite :: ResumeData where
  "altered_rewrite =
     (with_projects [project ''App'' (Some ''http://b.example'')])
       \<lparr>linkedin := Some ''https://linkedin.com/in/eve'', ResumeData.location := Some ''Paris''\<rparr>"

definition dropped_rewrite :: ResumeData where
  "dropped_rewrite =
     with_projects [project ''APP'' (Some []), project ''Other'' (Some ''http://o.example'')]"

text \<open>Two projects of one title, both with a link.\<close>

definition twice_original :: ResumeData where
  "twice_original =
     with_projects [project ''App'' (Some ''http://first.example''),
                    project ''app'' (Some ''http://second.example'')]"

definition twice_rewrite :: ResumeData where
  "twice_rewrite = with_projects [project ''APP'' None]"

definition server_error :: "'a Response" where
  "server_error = \<lparr>ok = False, status = 500, statusText = ''Internal Server Error'',
                    body_text = Some ''quota exceeded'', body_json = Inl (Error ''Unexpected token'')\<rparr>"

definition example_resume :: ResumeData where
  "example_resume = altered_original\<lparr>ResumeData.summary := ''Engineer.'',
                                      ResumeData.skills := [''Python'', ''SQL'']\<rparr>"

definition example_page :: "nat OptimizePage" where
  "example_page =
     \<lparr>jd = ''Build services'', OptimizePage.loading = False, optimizing = False,
      OptimizePage.downloading = False, OptimizePage.enhancingSection = None,
      original = Some altered_original, originalScore = Some 61,
      optimized = Some example_resume, optimizedScore = Some 78, OptimizePage.alerts = []\<rparr>"

text \<open>A click on Enhance for the summary, and an edit of the skills while the request is
  under way; the answer of the backend.\<close>

definition clicked_page :: "nat OptimizePage" where
  "clicked_page = enhance_clicked example_page ''summary''"

definition edited_page :: "nat OptimizePage" where
  "edited_page = skills_edited clicked_page (''Python'' @ [newline] @ ''SQL'' @ [newline] @ ''Rust'')"

definition enhanced :: "string \<Rightarrow> EnhanceResponse Response" where
  "enhanced c = \<lparr>ok = True, status = 200, statusText = ''OK'', body_text = None,
                  body_json = Inr \<lparr>enhanced_content = c\<rparr>\<rparr>"

definition example_exp :: ExpEntry where
  "example_exp = emptyExp\<lparr>ExpEntry.job_title := ''Engineer'', ExpEntry.company := ''Acme'',
                           ExpEntry.start_date := ''03/2020'', ExpEntry.end_date := ''06/2021''\<rparr>"

definition example_create :: "nat CreatePage" where
  "example_create =
     \<lparr>step = 2, CreatePage.loading = False, CreatePage.enhancingSection = None,
      fullName = ''Ada'', CreatePage.phone = ''1'', CreatePage.email = ''ada@example.org'',
      targetRole = ''Engineer'', jobDescription = [],
      showEducation = False, showExperience = True, showProjects = False,
      CreatePage.education = [emptyEdu],
      CreatePage.experience = [example_exp],
      CreatePage.projects = [emptyProj],
      resumeData = Some example_resume, atsScore = Some 78,
      CreatePage.summary = ''Engineer.'', CreatePage.skills = ''Python'',
      CreatePage.downloading = False, CreatePage.alerts = []\<rparr>"

definition ongoing_exp :: ExpEntry where
  "ongoing_exp = emptyExp\<lparr>ExpEntry.job_title := ''Engineer'', ExpEntry.company := ''Acme'',
                           ExpEntry.start_date := ''03/2020''\<rparr>"

definition ongoing_entry :: ExperienceEntry where
  "ongoing_entry =
     \<lparr>ExperienceEntry.job_title = ''Engineer'', ExperienceEntry.company = ''Acme'',
      ExperienceEntry.location = None, ExperienceEntry.start_date = ''Mar 2020'',
      ExperienceEntry.end_date = None, ExperienceEntry.responsibilities = [''Built it.'']\<rparr>"

definition linked_project :: "string option \<Rightarrow> ProjectEntry" where
  "linked_project l =
     \<lparr>ProjectEntry.title = ''Solver'', ProjectEntry.description = ''A SAT solver.'',
      ProjectEntry.technologies = [''OCaml'', ''C''], ProjectEntry.link = l\<rparr>"


section \<open>Reconciliation of the rewrite with the original\<close>

lemma or_else_title: "or_else (Some t) [] = t"
  by (simp add: or_else_def)

lemma fold_set_lookup:
  "fold (\<lambda>p m. if ProjectEntry.title p \<noteq> [] then m(lower (ProjectEntry.title p) \<mapsto> p) else m) ps m0 k =
     (let ms = filter (\<lambda>q. ProjectEntry.title q \<noteq> [] \<and> lower (ProjectEntry.title q) = k) ps
      in if ms = [] then m0 k else Some (last ms))"
  by (induction ps arbitrary: m0) (auto simp: Let_def)

lemma byTitle_lookup:
  "byTitle lower ps (lower t) =
     (if title_matches lower t ps = [] then None else Some (last (title_matches lower t ps)))"
  unfolding byTitle_def title_matches_def by (simp add: fold_set_lookup Let_def)

lemma patch_project_eq:
  "patch_project lower (byTitle lower ps) p =
     (if title_matches lower (ProjectEntry.title p) ps \<noteq> [] \<and> \<not> truthy (ProjectEntry.link p)
           \<and> truthy (ProjectEntry.link (last (title_matches lower (ProjectEntry.title p) ps)))
      then p\<lparr>ProjectEntry.link :=
               ProjectEntry.link (last (title_matches lower (ProjectEntry.title p) ps))\<rparr>
      else p)"
  by (simp add: patch_project_def byTitle_lookup or_else_title)

lemma projects_merge_back:
  "ResumeData.projects (merge_back lower orig rd) =
     map (patch_project lower (byTitle lower (ResumeData.projects orig))) (ResumeData.projects rd)"
  by (simp add: merge_back_def)

lemma title_matches_last:
  assumes "ProjectEntry.title q \<noteq> []" and "lower (ProjectEntry.title q) = lower t"
    and "\<forall>z\<in>set zs. lower (ProjectEntry.title z) \<noteq> lower t"
  shows "title_matches lower t (xs @ q # zs) \<noteq> []
         \<and> last (title_matches lower t (xs @ q # zs)) = q"
proof -
  have "filter (\<lambda>z. ProjectEntry.title z \<noteq> [] \<and> lower (ProjectEntry.title z) = lower t) zs = []"
    using assms(3) by (simp add: filter_empty_conv)
  then have "title_matches lower t (xs @ q # zs) = title_matches lower t xs @ [q]"
    using assms(1,2) by (simp add: title_matches_def)
  then show ?thesis by simp
qed

lemma title_matches_members:
  "q \<in> set (title_matches lower t ps) \<Longrightarrow>
     q \<in> set ps \<and> ProjectEntry.title q \<noteq> [] \<and> lower (ProjectEntry.title q) = lower t"
  by (simp add: title_matches_def)

lemma matches_dropped:
  "title_matches toLowerCase (ProjectEntry.title (ResumeData.projects dropped_rewrite ! 0))
      (ResumeData.projects altered_original) = [project ''App'' (Some ''http://a.example'')]"
  by code_simp

lemma matches_shadowed:
  "title_matches toLowerCase (ProjectEntry.title (ResumeData.projects shadowed_rewrite ! 0))
      (ResumeData.projects shadowed_original) = []"
  "title_matches toLowerCase (ProjectEntry.title (ResumeData.projects shadowed_rewrite ! 1))
      (ResumeData.projects shadowed_original)
     = [project ''App'' (Some ''http://a.example''), project ''app'' None]"
  by code_simp+

text \<open>
  C1, as the code has it, for every lower-casing function.  For a project \<open>p\<close> of the
  rewrite let \<open>ms\<close> be the originals that have a title, equal to the title of \<open>p\<close> when both
  are lower-cased.  When the link of \<open>p\<close> is empty and the last of \<open>ms\<close> has a link, the
  merged project is \<open>p\<close> with that link, so its link is not empty.  In every other case,
  also when \<open>ms\<close> is empty because the only original of that title has no title, or when
  the last of \<open>ms\<close> has no link while an earlier one has, the merged project is \<open>p\<close> itself.
\<close>

theorem merge_back_patches_empty_link:
  assumes "i < length (ResumeData.projects rd)"
    and "p = ResumeData.projects rd ! i"
    and "ms = title_matches lower (ProjectEntry.title p) (ResumeData.projects orig)"
  shows "(\<not> truthy (ProjectEntry.link p) \<and> ms \<noteq> [] \<and> truthy (ProjectEntry.link (last ms)) \<longrightarrow>
            ResumeData.projects (merge_back lower orig rd) ! i
              = p\<lparr>ProjectEntry.link := ProjectEntry.link (last ms)\<rparr>
            \<and> truthy (ProjectEntry.link (ResumeData.projects (merge_back lower orig rd) ! i)))
         \<and> (truthy (ProjectEntry.link p) \<or> ms = [] \<or> \<not> truthy (ProjectEntry.link (last ms)) \<longrightarrow>
            ResumeData.projects (merge_back lower orig rd) ! i = p)
         \<and> (\<forall>q\<in>set ms. q \<in> set (ResumeData.projects orig) \<and> ProjectEntry.title q \<noteq> []
                          \<and> lower (ProjectEntry.title q) = lower (ProjectEntry.title p))"
proof -
  have patched: "ResumeData.projects (merge_back lower orig rd) ! i
      = (if ms \<noteq> [] \<and> \<not> truthy (ProjectEntry.link p) \<and> truthy (ProjectEntry.link (last ms))
         then p\<lparr>ProjectEntry.link := ProjectEntry.link (last ms)\<rparr> else p)"
    using assms by (simp add: projects_merge_back patch_project_eq)
  have members: "\<forall>q\<in>set ms. q \<in> set (ResumeData.projects orig) \<and> ProjectEntry.title q \<noteq> []
                          \<and> lower (ProjectEntry.title q) = lower (ProjectEntry.title p)"
    using assms(3) title_matches_members by blast
  show ?thesis using patched members by auto
qed

text \<open>The theorem at a rewrite that emptied the link of the project App, and at the two
  projects of a rewrite that are left as they are.\<close>

theorem merge_back_patches_empty_link_witness:
  "0 < length (ResumeData.projects dropped_rewrite)
   \<and> \<not> truthy (ProjectEntry.link (ResumeData.projects dropped_rewrite ! 0))
   \<and> title_matches toLowerCase (ProjectEntry.title (ResumeData.projects dropped_rewrite ! 0))
        (ResumeData.projects altered_original) = [project ''App'' (Some ''http://a.example'')]
   \<and> ResumeData.projects (merge_back toLowerCase altered_original dropped_rewrite) ! 0
        = project ''APP'' (Some ''http://a.example'')
   \<and> ResumeData.projects (merge_back toLowerCase shadowed_original shadowed_rewrite) ! 0
        = ResumeData.projects shadowed_rewrite ! 0
   \<and> ResumeData.projects (merge_back toLowerCase shadowed_original shadowed_rewrite) ! 1
        = ResumeData.projects shadowed_rewrite ! 1"
proof -
  have 1: "0 < length (ResumeData.projects dropped_rewrite)" by code_simp
  have 2: "\<not> truthy (ProjectEntry.link (ResumeData.projects dropped_rewrite ! 0))" by code_simp
  have 3: "truthy (ProjectEntry.link (last [project ''App'' (Some ''http://a.example'')]))"
    by (simp add: truthy_def project_def)
  have 4: "(ResumeData.projects dropped_rewrite ! 0)\<lparr>ProjectEntry.link := Some ''http://a.example''\<rparr>
             = project ''APP'' (Some ''http://a.example'')"
    by (simp add: dropped_rewrite_def with_projects_def project_def)
  have a: "ResumeData.projects (merge_back toLowerCase altered_original dropped_rewrite) ! 0
        = project ''APP'' (Some ''http://a.example'')"
    using merge_back_patches_empty_link[OF 1 refl matches_dropped[symmetric]] 2 3 4
    by (simp add: project_def)
  have 5: "0 < length (ResumeData.projects shadowed_rewrite)"
    and 6: "1 < length (ResumeData.projects shadowed_rewrite)" by code_simp+
  have 7: "\<not> truthy (ProjectEntry.link (last [project ''App'' (Some ''http://a.example''), project ''app'' None]))"
    by (simp add: truthy_def project_def)
  have b: "ResumeData.projects (merge_back toLowerCase shadowed_original shadowed_rewrite) ! 0
        = ResumeData.projects shadowed_rewrite ! 0"
    using merge_back_patches_empty_link[OF 5 refl matches_shadowed(1)[symmetric]]
    by simp
  have c: "ResumeData.projects (merge_back toLowerCase shadowed_original shadowed_rewrite) ! 1
        = ResumeData.projects shadowed_rewrite ! 1"
    using merge_back_patches_empty_link[OF 6 refl matches_shadowed(2)[symmetric]] 7
    by blast
  show ?thesis using 1 2 matches_dropped a b c by blast
qed

text \<open>
  As the specification states it, the property fails in two ways, both at one input.  A
  project without a title is never entered in the map, so the untitled project of the
  rewrite keeps its empty link although the untitled original has one.  And of two
  originals with one title the map keeps the later: the later has no link here, so the
  rewrite's project keeps its empty link although the earlier original of that title has
  one.  The titles are ASCII, where \<open>toLowerCase\<close> is the lower-casing of the code.
\<close>

theorem merge_back_leaves_empty_link_counterexample:
  "toLowerCase (ProjectEntry.title (ResumeData.projects shadowed_original ! 0))
     = toLowerCase (ProjectEntry.title (ResumeData.projects shadowed_rewrite ! 0))
   \<and> truthy (ProjectEntry.link (ResumeData.projects shadowed_original ! 0))
   \<and> \<not> truthy (ProjectEntry.link (ResumeData.projects shadowed_rewrite ! 0))
   \<and> \<not> truthy (ProjectEntry.link
          (ResumeData.projects (merge_back toLowerCase shadowed_original shadowed_rewrite) ! 0))
   \<and> toLowerCase (ProjectEntry.title (ResumeData.projects shadowed_original ! 1))
     = toLowerCase (ProjectEntry.title (ResumeData.projects shadowed_rewrite ! 1))
   \<and> truthy (ProjectEntry.link (ResumeData.projects shadowed_original ! 1))
   \<and> \<not> truthy (ProjectEntry.link (ResumeData.projects shadowed_rewrite ! 1))
   \<and> \<not> truthy (ProjectEntry.link
          (ResumeData.projects (merge_back toLowerCase shadowed_original shadowed_rewrite) ! 1))"
  by code_simp

text \<open>
  C2, as the code has it, for every lower-casing function.  A contact field that the
  rewrite left absent or empty is taken from the original (and is the empty string when
  the original has none).  The merged result has the projects of the rewrite, in their
  order; a project whose link the rewrite left non-empty is kept as the rewrite has it,
  and a project whose link is empty gets the link of the last original that has the same
  title when both are lower-cased, and a title at all, when that original has a link.
\<close>

theorem merge_back_restores_dropped:
  "(\<not> truthy (linkedin rd) \<longrightarrow>
      linkedin (merge_back lower orig rd) = Some (case linkedin orig of None \<Rightarrow> [] | Some v \<Rightarrow> v))
   \<and> (\<not> truthy (ResumeData.location rd) \<longrightarrow>
      ResumeData.location (merge_back lower orig rd)
        = Some (case ResumeData.location orig of None \<Rightarrow> [] | Some v \<Rightarrow> v))
   \<and> length (ResumeData.projects (merge_back lower orig rd)) = length (ResumeData.projects rd)
   \<and> (\<forall>i < length (ResumeData.projects rd).
        (truthy (ProjectEntry.link (ResumeData.projects rd ! i)) \<longrightarrow>
           ResumeData.projects (merge_back lower orig rd) ! i = ResumeData.projects rd ! i)
        \<and> (\<not> truthy (ProjectEntry.link (ResumeData.projects rd ! i))
             \<and> title_matches lower (ProjectEntry.title (ResumeData.projects rd ! i))
                  (ResumeData.projects orig) \<noteq> []
             \<and> truthy (ProjectEntry.link (last (title_matches lower
                   (ProjectEntry.title (ResumeData.projects rd ! i)) (ResumeData.projects orig))))
           \<longrightarrow> ProjectEntry.link (ResumeData.projects (merge_back lower orig rd) ! i)
                 = ProjectEntry.link (last (title_matches lower
                     (ProjectEntry.title (ResumeData.projects rd ! i)) (ResumeData.projects orig)))))"
proof -
  have a: "\<not> truthy (linkedin rd) \<longrightarrow>
      linkedin (merge_back lower orig rd) = Some (case linkedin orig of None \<Rightarrow> [] | Some v \<Rightarrow> v)"
    by (auto simp: merge_back_def truthy_def or_else_def split: option.splits)
  have b: "\<not> truthy (ResumeData.location rd) \<longrightarrow>
      ResumeData.location (merge_back lower orig rd)
        = Some (case ResumeData.location orig of None \<Rightarrow> [] | Some v \<Rightarrow> v)"
    by (auto simp: merge_back_def truthy_def or_else_def split: option.splits)
  have c: "length (ResumeData.projects (merge_back lower orig rd)) = length (ResumeData.projects rd)"
    by (simp add: projects_merge_back)
  show ?thesis using a b c by (simp add: projects_merge_back patch_project_eq)
qed

text \<open>The theorem at a rewrite that dropped both contact fields and the link of App, and
  kept the link of another project.\<close>

theorem merge_back_restores_dropped_witness:
  "\<not> truthy (linkedin dropped_rewrite)
   \<and> linkedin (merge_back toLowerCase altered_original dropped_rewrite)
        = Some ''https://linkedin.com/in/ada''
   \<and> \<not> truthy (ResumeData.location dropped_rewrite)
   \<and> ResumeData.location (merge_back toLowerCase altered_original dropped_rewrite) = Some ''London''
   \<and> \<not> truthy (ProjectEntry.link (ResumeData.projects dropped_rewrite ! 0))
   \<and> ProjectEntry.link (ResumeData.projects (merge_back toLowerCase altered_original dropped_rewrite) ! 0)
        = Some ''http://a.example''
   \<and> truthy (ProjectEntry.link (ResumeData.projects dropped_rewrite ! 1))
   \<and> ResumeData.projects (merge_back toLowerCase altered_original dropped_rewrite) ! 1
        = ResumeData.projects dropped_rewrite ! 1"
proof -
  note T = merge_back_restores_dropped[of dropped_rewrite toLowerCase altered_original]
  have 1: "\<not> truthy (linkedin dropped_rewrite)" by code_simp
  have 2: "\<not> truthy (ResumeData.location dropped_rewrite)" by code_simp
  have 3: "linkedin altered_original = Some ''https://linkedin.com/in/ada''" by code_simp
  have 4: "ResumeData.location altered_original = Some ''London''" by code_simp
  have 5: "0 < length (ResumeData.projects dropped_rewrite)" by code_simp
  have 6: "1 < length (ResumeData.projects dropped_rewrite)" by code_simp
  have 7: "\<not> truthy (ProjectEntry.link (ResumeData.projects dropped_rewrite ! 0))" by code_simp
  have 8: "truthy (ProjectEntry.link (ResumeData.projects dropped_rewrite ! 1))" by code_simp
  have 9: "title_matches toLowerCase (ProjectEntry.title (ResumeData.projects dropped_rewrite ! 0))
             (ResumeData.projects altered_original) = [project ''App'' (Some ''http://a.example'')]"
    by code_simp
  have 10: "truthy (ProjectEntry.link (project ''App'' (Some ''http://a.example'')))" by code_simp
  have 11: "ProjectEntry.link (project ''App'' (Some ''http://a.example'')) = Some ''http://a.example''"
    by (simp add: project_def)
  have a: "linkedin (merge_back toLowerCase altered_original dropped_rewrite)
             = Some ''https://linkedin.com/in/ada''"
    using T 1 3 by simp
  have b: "ResumeData.location (merge_back toLowerCase altered_original dropped_rewrite) = Some ''London''"
    using T 2 4 by simp
  have c: "ProjectEntry.link (ResumeData.projects (merge_back toLowerCase altered_original dropped_rewrite) ! 0)
             = Some ''http://a.example''"
    using T 5 7 9 10 11 by simp
  have d: "ResumeData.projects (merge_back toLowerCase altered_original dropped_rewrite) ! 1
             = ResumeData.projects dropped_rewrite ! 1"
    using T 6 8 by blast
  show ?thesis using 1 2 7 8 a b c d by blast
qed

text \<open>
  As the specification states it, the property fails where the rewrite altered a value
  instead of dropping it: the merged result keeps the rewrite's contact fields and the
  rewrite's link, which differ from the original's.  The titles are ASCII, where
  \<open>toLowerCase\<close> is the lower-casing of the code.
\<close>

theorem merge_back_keeps_altered_counterexample:
  "linkedin altered_rewrite \<noteq> linkedin altered_original
   \<and> linkedin (merge_back toLowerCase altered_original altered_rewrite) \<noteq> linkedin altered_original
   \<and> ResumeData.location altered_rewrite \<noteq> ResumeData.location altered_original
   \<and> ResumeData.location (merge_back toLowerCase altered_original altered_rewrite)
        \<noteq> ResumeData.location altered_original
   \<and> toLowerCase (ProjectEntry.title (ResumeData.projects altered_rewrite ! 0))
        = toLowerCase (ProjectEntry.title (ResumeData.projects altered_original ! 0))
   \<and> ProjectEntry.link (ResumeData.projects altered_rewrite ! 0)
        \<noteq> ProjectEntry.link (ResumeData.projects altered_original ! 0)
   \<and> ProjectEntry.link (ResumeData.projects (merge_back toLowerCase altered_original altered_rewrite) ! 0)
        \<noteq> ProjectEntry.link (ResumeData.projects altered_original ! 0)"
  by code_simp

text \<open>
  C3, as the code has it, for every lower-casing function.  When two or more originals
  have a title, equal to the title of a rewritten project when lower-cased, and the link
  of the rewritten project is empty, the last of these originals decides: the project
  gets its link if it has one, and stays as it is otherwise.
\<close>

theorem merge_back_last_match_wins:
  assumes "i < length (ResumeData.projects rd)"
    and "\<not> truthy (ProjectEntry.link (ResumeData.projects rd ! i))"
    and "ResumeData.projects orig = xs @ q1 # ys @ q2 # zs"
    and "ProjectEntry.title q1 \<noteq> []"
    and "lower (ProjectEntry.title q1) = lower (ProjectEntry.title (ResumeData.projects rd ! i))"
    and "ProjectEntry.title q2 \<noteq> []"
    and "lower (ProjectEntry.title q2) = lower (ProjectEntry.title (ResumeData.projects rd ! i))"
    and "\<forall>z\<in>set zs. ProjectEntry.title z = []
                        \<or> lower (ProjectEntry.title z)
                            \<noteq> lower (ProjectEntry.title (ResumeData.projects rd ! i))"
  shows "ResumeData.projects (merge_back lower orig rd) ! i =
           (if truthy (ProjectEntry.link q2)
            then (ResumeData.projects rd ! i)\<lparr>ProjectEntry.link := ProjectEntry.link q2\<rparr>
            else ResumeData.projects rd ! i)"
proof -
  let ?t = "ProjectEntry.title (ResumeData.projects rd ! i)"
  have "filter (\<lambda>z. ProjectEntry.title z \<noteq> [] \<and> lower (ProjectEntry.title z) = lower ?t) zs = []"
    using assms(8) by (auto simp: filter_empty_conv)
  then have "title_matches lower ?t ((xs @ q1 # ys) @ q2 # zs)
               = title_matches lower ?t (xs @ q1 # ys) @ [q2]"
    using assms(6,7) by (simp add: title_matches_def)
  then have "title_matches lower ?t (ResumeData.projects orig) \<noteq> []
     \<and> last (title_matches lower ?t (ResumeData.projects orig)) = q2"
    using assms(3) by simp
  then show ?thesis using assms(1,2) by (simp add: projects_merge_back patch_project_eq)
qed

text \<open>The theorem at two originals titled App and app and a rewrite titled APP.\<close>

theorem merge_back_last_match_wins_witness:
  "ResumeData.projects twice_original
     = [] @ project ''App'' (Some ''http://first.example'')
          # [] @ project ''app'' (Some ''http://second.example'') # []
   \<and> \<not> truthy (ProjectEntry.link (ResumeData.projects twice_rewrite ! 0))
   \<and> ResumeData.projects (merge_back toLowerCase twice_original twice_rewrite) ! 0
       = project ''APP'' (Some ''http://second.example'')"
proof -
  let ?q1 = "project ''App'' (Some ''http://first.example'')"
  let ?q2 = "project ''app'' (Some ''http://second.example'')"
  have 1: "0 < length (ResumeData.projects twice_rewrite)" by code_simp
  have 2: "\<not> truthy (ProjectEntry.link (ResumeData.projects twice_rewrite ! 0))" by code_simp
  have 3: "ResumeData.projects twice_original = [] @ ?q1 # [] @ ?q2 # []"
    by (simp add: twice_original_def with_projects_def)
  have 4: "ProjectEntry.title ?q1 \<noteq> []" by (simp add: project_def)
  have 5: "toLowerCase (ProjectEntry.title ?q1)
             = toLowerCase (ProjectEntry.title (ResumeData.projects twice_rewrite ! 0))" by code_simp
  have 6: "ProjectEntry.title ?q2 \<noteq> []" by (simp add: project_def)
  have 7: "toLowerCase (ProjectEntry.title ?q2)
             = toLowerCase (ProjectEntry.title (ResumeData.projects twice_rewrite ! 0))" by code_simp
  have 8: "\<forall>z\<in>set []. ProjectEntry.title z = []
             \<or> toLowerCase (ProjectEntry.title z)
                 \<noteq> toLowerCase (ProjectEntry.title (ResumeData.projects twice_rewrite ! 0))" by simp
  have 9: "truthy (ProjectEntry.link ?q2)" by (simp add: truthy_def project_def)
  have "ResumeData.projects (merge_back toLowerCase twice_original twice_rewrite) ! 0
          = project ''APP'' (Some ''http://second.example'')"
    using merge_back_last_match_wins[OF 1 2 3 4 5 6 7 8] 9
    by (simp add: twice_rewrite_def with_projects_def project_def)
  with 2 3 show ?thesis by blast
qed

text \<open>
  As the specification states it, the property fails: the link patched in is the link of
  the second original of that title, not of the first.  The titles are ASCII, where
  \<open>toLowerCase\<close> is the lower-casing of the code.
\<close>

theorem merge_back_first_match_counterexample:
  "toLowerCase (ProjectEntry.title (ResumeData.projects twice_original ! 0))
     = toLowerCase (ProjectEntry.title (ResumeData.projects twice_rewrite ! 0))
   \<and> toLowerCase (ProjectEntry.title (ResumeData.projects twice_original ! 1))
     = toLowerCase (ProjectEntry.title (ResumeData.projects twice_rewrite ! 0))
   \<and> \<not> truthy (ProjectEntry.link (ResumeData.projects twice_rewrite ! 0))
   \<and> ProjectEntry.link (ResumeData.projects twice_original ! 0) = Some ''http://first.example''
   \<and> ProjectEntry.link (ResumeData.projects (merge_back toLowerCase twice_original twice_rewrite) ! 0)
       = Some ''http://second.example''
   \<and> ProjectEntry.link (ResumeData.projects (merge_back toLowerCase twice_original twice_rewrite) ! 0)
       \<noteq> ProjectEntry.link (ResumeData.projects twice_original ! 0)"
  by code_simp


section \<open>Failed requests\<close>

lemma enhanceSection_server_error:
  "enhanceSection (Inr server_error) = Inl (Error ''API 500 Internal Server Error: quota exceeded'')"
  by code_simp

lemma server_error_fields:
  "\<not> ok (server_error :: 'a Response)" "status (server_error :: 'a Response) = 500"
  "statusText (server_error :: 'a Response) = ''Internal Server Error''"
  "body_text (server_error :: 'a Response) = Some ''quota exceeded''"
  by (simp_all add: server_error_def)

lemma string_of_nat_500: "string_of_nat 500 = ''500''"
  by code_simp

text \<open>
  C9, as the code has it.  For a response whose status is not ok, \<^verbatim>\<open>checkedFetch\<close> throws an
  Error and returns nothing; the message is made of the status code, the status text and
  the body, or of a placeholder when the body cannot be read.  \<^verbatim>\<open>handleOptimize\<close>,
  \<^verbatim>\<open>handleGenerate\<close> and the \<^verbatim>\<open>handleEnhance\<close> of the optimize page catch the failure: they show
  an alert with the message, store no result and clear their busy flag, in whatever state
  the request completes.  The
  \<^verbatim>\<open>handleEnhance\<close> of the create page catches it too and only clears its busy flag.
\<close>

theorem non_ok_response_is_caught:
  assumes "\<not> ok res" and "\<not> ok eres"
  shows "(let msg = ''API '' @ string_of_nat (status res) @ '' '' @ statusText res @ '': ''
                     @ (case body_text res of Some t \<Rightarrow> t | None \<Rightarrow> ''<unreadable response>'');
              emsg = ''API '' @ string_of_nat (status eres) @ '' '' @ statusText eres @ '': ''
                     @ (case body_text eres of Some t \<Rightarrow> t | None \<Rightarrow> ''<unreadable response>'')
          in checkedFetch (Inr res) = Inl (Error msg)
             \<and> checkedFetch (Inr eres) = Inl (Error emsg)
             \<and> (original clicked = Some orig \<longrightarrow>
                  handleOptimize lower clicked st (Inr res)
                    = st\<lparr>OptimizePage.alerts := OptimizePage.alerts st @ [''Optimization failed: '' @ msg],
                         optimizing := False\<rparr>
                  \<and> handleEnhance clicked st section content (Inr eres)
                    = st\<lparr>OptimizePage.alerts := OptimizePage.alerts st @ [''Enhancement failed: '' @ emsg],
                         OptimizePage.enhancingSection := None\<rparr>)
             \<and> handleGenerate cst (Inr res)
                  = cst\<lparr>CreatePage.alerts := CreatePage.alerts cst @ [''Generation failed: '' @ msg],
                        CreatePage.loading := False\<rparr>
             \<and> create_handleEnhance cst section content (Inr eres)
                  = cst\<lparr>CreatePage.enhancingSection := None\<rparr>)"
  using assms
  by (simp add: Let_def checkedFetch_def handleOptimize_def generateResume_def handleEnhance_def
        enhanceSection_def handleGenerate_def create_handleEnhance_def)

text \<open>The theorem at a response with status 500 on the optimize page.\<close>

theorem non_ok_response_is_caught_witness:
  "\<not> ok (server_error :: nat GenerateResponse Response)
   \<and> checkedFetch (Inr (server_error :: nat GenerateResponse Response))
       = Inl (Error ''API 500 Internal Server Error: quota exceeded'')
   \<and> handleOptimize toLowerCase example_page example_page (Inr server_error)
       = example_page\<lparr>OptimizePage.alerts :=
           [''Optimization failed: API 500 Internal Server Error: quota exceeded''],
           optimizing := False\<rparr>"
proof -
  have o: "original example_page = Some altered_original" "OptimizePage.alerts example_page = []"
    by (simp_all add: example_page_def)
  from non_ok_response_is_caught[OF server_error_fields(1) server_error_fields(1),
         where clicked = example_page and st = example_page and orig = altered_original
           and lower = toLowerCase]
  show ?thesis
    by (simp add: Let_def server_error_fields string_of_nat_500 o)
qed

text \<open>
  As the specification states it, the property fails for one caller: on the create page a
  failed enhance request leaves the whole state as it was and shows no message.
\<close>

theorem create_enhance_fails_silently_counterexample:
  "\<not> ok (server_error :: EnhanceResponse Response)
   \<and> enhanceSection (Inr server_error) = Inl (Error ''API 500 Internal Server Error: quota exceeded'')
   \<and> create_handleEnhance example_create ''summary'' ''Engineer.'' (Inr server_error) = example_create
   \<and> CreatePage.alerts (create_handleEnhance example_create ''summary'' ''Engineer.'' (Inr server_error)) = []"
proof -
  have "create_handleEnhance example_create ''summary'' ''Engineer.'' (Inr server_error)
          = example_create\<lparr>CreatePage.enhancingSection := None\<rparr>"
    by (simp add: create_handleEnhance_def enhanceSection_server_error)
  moreover have "example_create\<lparr>CreatePage.enhancingSection := None\<rparr> = example_create"
    by (simp add: example_create_def)
  moreover have "CreatePage.alerts example_create = []" by (simp add: example_create_def)
  ultimately show ?thesis using enhanceSection_server_error server_error_fields(1) by simp
qed


section \<open>The section enhancer\<close>

text \<open>What a successful request stores: the resume of the click with the named section
  replaced, whatever the resume of the state has become since.\<close>

lemma handleEnhance_success:
  assumes "original clicked = Some orig" and "enhanceSection fetched = Inr res"
    and "optimized clicked = Some opt"
  shows "handleEnhance clicked st ''summary'' content fetched
           = st\<lparr>optimized := Some (opt\<lparr>ResumeData.summary := enhanced_content res\<rparr>),
                OptimizePage.enhancingSection := None\<rparr>"
    and "handleEnhance clicked st ''skills'' content fetched
           = st\<lparr>optimized := Some (opt\<lparr>ResumeData.skills := nonempty_lines (enhanced_content res)\<rparr>),
                OptimizePage.enhancingSection := None\<rparr>"
  using assms by (simp_all add: handleEnhance_def or_else_def nonempty_lines_def)

text \<open>On the create page summary and skills have setters of their own, and a call changes
  the named one alone.\<close>

lemma create_handleEnhance_summary_frame:
  "\<exists>s es. create_handleEnhance cst ''summary'' content fetched
       = cst\<lparr>CreatePage.summary := s, CreatePage.enhancingSection := es\<rparr>"
proof (cases "enhanceSection fetched")
  case (Inl e)
  then have "create_handleEnhance cst ''summary'' content fetched
       = cst\<lparr>CreatePage.summary := CreatePage.summary cst, CreatePage.enhancingSection := None\<rparr>"
    by (simp add: create_handleEnhance_def)
  then show ?thesis by blast
next
  case (Inr res)
  then have "create_handleEnhance cst ''summary'' content fetched
       = cst\<lparr>CreatePage.summary := enhanced_content res, CreatePage.enhancingSection := None\<rparr>"
    by (simp add: create_handleEnhance_def)
  then show ?thesis by blast
qed

lemma create_handleEnhance_skills_frame:
  "\<exists>ks es. create_handleEnhance cst ''skills'' content fetched
       = cst\<lparr>CreatePage.skills := ks, CreatePage.enhancingSection := es\<rparr>"
proof (cases "enhanceSection fetched")
  case (Inl e)
  then have "create_handleEnhance cst ''skills'' content fetched
       = cst\<lparr>CreatePage.skills := CreatePage.skills cst, CreatePage.enhancingSection := None\<rparr>"
    by (simp add: create_handleEnhance_def)
  then show ?thesis by blast
next
  case (Inr res)
  then have "create_handleEnhance cst ''skills'' content fetched
       = cst\<lparr>CreatePage.skills := enhanced_content res, CreatePage.enhancingSection := None\<rparr>"
    by (simp add: create_handleEnhance_def)
  then show ?thesis by blast
qed

text \<open>
  C4 does not hold of the optimize page.  Enhance is clicked for the summary of a resume
  with the skills Python and SQL; while the request is under way the skill Rust is typed
  into the skills text area; then the request succeeds.  The handler stores the resume of
  the click with the new summary, and the skills are Python and SQL again: a call for the
  summary has changed the skills that the page held.
\<close>

theorem enhance_summary_reverts_skills_edit:
  "map_option ResumeData.skills (optimized clicked_page) = Some [''Python'', ''SQL'']
   \<and> map_option ResumeData.skills (optimized edited_page) = Some [''Python'', ''SQL'', ''Rust'']
   \<and> OptimizePage.enhancingSection edited_page = Some ''summary''
   \<and> map_option ResumeData.summary
         (optimized (handleEnhance clicked_page edited_page ''summary'' ''Engineer.''
                       (Inr (enhanced ''Senior engineer.''))))
       = Some ''Senior engineer.''
   \<and> map_option ResumeData.skills
         (optimized (handleEnhance clicked_page edited_page ''summary'' ''Engineer.''
                       (Inr (enhanced ''Senior engineer.''))))
       = Some [''Python'', ''SQL'']"
  by code_simp

text \<open>
  C5.  When the request of an enhance call fails, the optimized resume of the optimize
  page is as it was, and on the create page nothing but the busy flag changes: summary and
  skills keep their content.
\<close>

theorem failed_enhance_leaves_content:
  assumes "enhanceSection fetched = Inl e"
  shows "optimized (handleEnhance clicked st section content fetched) = optimized st
         \<and> create_handleEnhance cst section content fetched
             = cst\<lparr>CreatePage.enhancingSection := None\<rparr>"
  using assms by (simp add: handleEnhance_def create_handleEnhance_def split: option.splits)

text \<open>The theorem at a response with status 500.\<close>

theorem failed_enhance_leaves_content_witness:
  "enhanceSection (Inr server_error) = Inl (Error ''API 500 Internal Server Error: quota exceeded'')
   \<and> optimized (handleEnhance clicked_page edited_page ''summary'' ''Engineer.'' (Inr server_error))
       = optimized edited_page
   \<and> CreatePage.summary (create_handleEnhance example_create ''summary'' ''Engineer.'' (Inr server_error))
       = ''Engineer.''
   \<and> CreatePage.skills (create_handleEnhance example_create ''summary'' ''Engineer.'' (Inr server_error))
       = ''Python''"
proof -
  note T = failed_enhance_leaves_content[OF enhanceSection_server_error,
             of clicked_page edited_page "''summary''" "''Engineer.''" example_create]
  have "CreatePage.summary example_create = ''Engineer.''" "CreatePage.skills example_create = ''Python''"
    by (simp_all add: example_create_def)
  with T enhanceSection_server_error show ?thesis by simp
qed


section \<open>Collections of a resume\<close>

text \<open>
  C6.  The empty resume has five empty collections, and \<^verbatim>\<open>clear\<close> stores it.  In a resume
  built from a sample payload each collection is the payload's when it is there and empty
  when it is missing.  \<^verbatim>\<open>loadSample\<close> stores such a resume or leaves the data as it was.
  On the create page the three lists of the form are, after \<^verbatim>\<open>loadSample\<close>, as they were or
  made entry by entry from a list of the payload.
\<close>

theorem collections_never_absent:
  "ResumeData.skills emptyResume = [] \<and> ResumeData.experience emptyResume = []
   \<and> ResumeData.education emptyResume = [] \<and> ResumeData.projects emptyResume = []
   \<and> ResumeData.certifications emptyResume = []
   \<and> data (clear st) = emptyResume
   \<and> ResumeData.skills (sample_resume s) = (case Sample.skills s of None \<Rightarrow> [] | Some v \<Rightarrow> v)
   \<and> ResumeData.experience (sample_resume s) = (case Sample.experience s of None \<Rightarrow> [] | Some v \<Rightarrow> v)
   \<and> ResumeData.education (sample_resume s) = (case Sample.education s of None \<Rightarrow> [] | Some v \<Rightarrow> v)
   \<and> ResumeData.projects (sample_resume s) = (case Sample.projects s of None \<Rightarrow> [] | Some v \<Rightarrow> v)
   \<and> ResumeData.certifications (sample_resume s)
        = (case Sample.certifications s of None \<Rightarrow> [] | Some v \<Rightarrow> v)
   \<and> (data (loadSample st fetched) = data st
        \<or> (\<exists>res s'. fetched = Inr res \<and> body_json res = Inr s'
                    \<and> data (loadSample st fetched) = sample_resume s'))
   \<and> (CreatePage.experience (create_loadSample cst fetched) = CreatePage.experience cst
        \<or> (\<exists>exs. CreatePage.experience (create_loadSample cst fetched) = map sample_exp exs))
   \<and> (CreatePage.education (create_loadSample cst fetched) = CreatePage.education cst
        \<or> (\<exists>eds. CreatePage.education (create_loadSample cst fetched) = map sample_edu eds))
   \<and> (CreatePage.projects (create_loadSample cst fetched) = CreatePage.projects cst
        \<or> (\<exists>ps. CreatePage.projects (create_loadSample cst fetched) = map sample_proj ps))"
proof -
  have resume: "ResumeData.skills emptyResume = [] \<and> ResumeData.experience emptyResume = []
   \<and> ResumeData.education emptyResume = [] \<and> ResumeData.projects emptyResume = []
   \<and> ResumeData.certifications emptyResume = []
   \<and> data (clear st) = emptyResume"
    by (simp add: emptyResume_def clear_def)
  have sample: "ResumeData.skills (sample_resume s) = (case Sample.skills s of None \<Rightarrow> [] | Some v \<Rightarrow> v)
   \<and> ResumeData.experience (sample_resume s) = (case Sample.experience s of None \<Rightarrow> [] | Some v \<Rightarrow> v)
   \<and> ResumeData.education (sample_resume s) = (case Sample.education s of None \<Rightarrow> [] | Some v \<Rightarrow> v)
   \<and> ResumeData.projects (sample_resume s) = (case Sample.projects s of None \<Rightarrow> [] | Some v \<Rightarrow> v)
   \<and> ResumeData.certifications (sample_resume s)
        = (case Sample.certifications s of None \<Rightarrow> [] | Some v \<Rightarrow> v)"
    by (simp add: sample_resume_def nullish_def)
  have form: "data (loadSample st fetched) = data st
        \<or> (\<exists>res s'. fetched = Inr res \<and> body_json res = Inr s'
                    \<and> data (loadSample st fetched) = sample_resume s')"
    by (auto simp: loadSample_def Let_def split: sum.splits)
  have exp: "CreatePage.experience (create_loadSample cst fetched) = CreatePage.experience cst
        \<or> (\<exists>exs. CreatePage.experience (create_loadSample cst fetched) = map sample_exp exs)"
    by (auto simp: create_loadSample_def Let_def split: sum.splits option.splits)
  have edu: "CreatePage.education (create_loadSample cst fetched) = CreatePage.education cst
        \<or> (\<exists>eds. CreatePage.education (create_loadSample cst fetched) = map sample_edu eds)"
    by (auto simp: create_loadSample_def Let_def split: sum.splits option.splits)
  have proj: "CreatePage.projects (create_loadSample cst fetched) = CreatePage.projects cst
        \<or> (\<exists>ps. CreatePage.projects (create_loadSample cst fetched) = map sample_proj ps)"
    by (auto simp: create_loadSample_def Let_def split: sum.splits option.splits)
  show ?thesis using resume sample form exp edu proj by blast
qed


section \<open>Dates of an experience entry\<close>

lemma split_by_no_separator: "\<forall>c\<in>set s. \<not> sep c \<Longrightarrow> split_by sep s = [s]"
  by (induction s) auto

lemma lower_char_separators: "lower_char (CHR ''-'') = CHR ''-''" "lower_char (CHR ''/'') = CHR ''/''"
  by code_simp+

lemma parseDate_present:
  assumes "toLowerCase s = ''present''"
  shows "parseDate s = None"
proof -
  have "\<not> (c = CHR ''-'' \<or> c = CHR ''/'')" if "c \<in> set s" for c
  proof
    assume "c = CHR ''-'' \<or> c = CHR ''/''"
    then have "lower_char c = CHR ''-'' \<or> lower_char c = CHR ''/''"
      using lower_char_separators by auto
    moreover have "lower_char c \<in> set (toLowerCase s)" using that by (simp add: toLowerCase_def)
    ultimately show False using assms by auto
  qed
  then have "split_by (\<lambda>c. c = CHR ''-'' \<or> c = CHR ''/'') s = [s]"
    by (intro split_by_no_separator) blast
  then show ?thesis by (simp add: parseDate_def)
qed

lemma parseDate_empty: "parseDate [] = None"
  by (simp add: parseDate_def)

lemma digit_value_digit_char: "d < 10 \<Longrightarrow> digit_value (digit_char d) = Some d"
  by (simp add: digit_value_def digit_char_def Let_def)

lemma is_decimal_digit_char: "d < 10 \<Longrightarrow> is_decimal (digit_char d)"
  by (simp add: is_decimal_def digit_char_def)

lemma is_decimal_zero: "is_decimal (CHR ''0'')" "digit_value (CHR ''0'') = Some 0"
  by (simp_all add: is_decimal_def digit_value_def)

lemma string_of_nat_decimal: "\<forall>c\<in>set (string_of_nat n). is_decimal c"
proof (induction n rule: string_of_nat.induct)
  case (1 n)
  show ?case
  proof (cases "n < 10")
    case True
    then show ?thesis by (simp add: is_decimal_digit_char string_of_nat.simps[of n])
  next
    case False
    then have "string_of_nat n = string_of_nat (n div 10) @ [digit_char (n mod 10)]"
      by (simp add: string_of_nat.simps[of n])
    moreover have "is_decimal (digit_char (n mod 10))" by (simp add: is_decimal_digit_char)
    ultimately show ?thesis using 1 False by auto
  qed
qed

lemma string_of_nat_nonempty: "string_of_nat n \<noteq> []"
  by (subst string_of_nat.simps) simp

lemma digits_value_snoc:
  "digits_value r (ds @ [c]) = (case digit_value c of None \<Rightarrow> digits_value r ds | Some d \<Rightarrow> digits_value r ds * r + d)"
  by (simp add: digits_value_def split: option.splits)

lemma digits_value_string_of_nat: "digits_value 10 (string_of_nat n) = n"
proof (induction n rule: string_of_nat.induct)
  case (1 n)
  show ?case
  proof (cases "n < 10")
    case True
    then have "string_of_nat n = [] @ [digit_char n]" by (simp add: string_of_nat.simps[of n])
    then show ?thesis using True
      by (simp only: digits_value_snoc) (simp add: digit_value_digit_char digits_value_def)
  next
    case False
    then have "string_of_nat n = string_of_nat (n div 10) @ [digit_char (n mod 10)]"
      by (simp add: string_of_nat.simps[of n])
    then have "digits_value 10 (string_of_nat n) = digits_value 10 (string_of_nat (n div 10)) * 10 + n mod 10"
      by (simp only: digits_value_snoc) (simp add: digit_value_digit_char)
    then show ?thesis using 1 False by simp
  qed
qed

lemma digits_value_zeros: "digits_value r (replicate k (CHR ''0'') @ ds) = digits_value r ds"
proof -
  have "foldl (\<lambda>acc c. case digit_value c of None \<Rightarrow> acc | Some d \<Rightarrow> acc * r + d) 0 (replicate k (CHR ''0'')) = 0"
    by (induction k) (simp_all add: is_decimal_zero)
  then show ?thesis by (simp add: digits_value_def)
qed

lemma pad_start_decimal: "\<forall>c\<in>set s. is_decimal c \<Longrightarrow> \<forall>c\<in>set (pad_start n s). is_decimal c"
  by (auto simp: pad_start_def is_decimal_zero)

lemma is_decimal_facts:
  assumes "is_decimal c"
  shows "\<not> is_space c" "c \<noteq> CHR ''-''" "c \<noteq> CHR ''+''" "c \<noteq> CHR ''x''" "c \<noteq> CHR ''X''"
    "c \<noteq> CHR ''/''" "is_digit_in 10 c"
  using assms by (auto simp: is_decimal_def is_space_def is_digit_in_def digit_value_def)

lemma parseInt_decimal:
  assumes "s \<noteq> []" and "\<forall>c\<in>set s. is_decimal c"
  shows "parseInt s = Some (int (digits_value 10 s))"
proof -
  obtain c cs where s: "s = c # cs" using assms(1) by (cases s) auto
  have c: "is_decimal c" using assms(2) s by simp
  have 1: "dropWhile is_space s = s" using s c is_decimal_facts(1) by simp
  have 2: "take (Suc 0) s \<noteq> ''-''" "take (Suc 0) s \<noteq> ''+''"
    using s c is_decimal_facts(2,3) by auto
  have 3: "take 2 s \<noteq> ''0x''" "take 2 s \<noteq> ''0X''"
  proof -
    show "take 2 s \<noteq> ''0x''"
    proof (cases cs)
      case Nil then show ?thesis using s by simp
    next
      case (Cons d ds)
      then have "is_decimal d" using assms(2) s by simp
      then show ?thesis using s Cons is_decimal_facts(4) by auto
    qed
    show "take 2 s \<noteq> ''0X''"
    proof (cases cs)
      case Nil then show ?thesis using s by simp
    next
      case (Cons d ds)
      then have "is_decimal d" using assms(2) s by simp
      then show ?thesis using s Cons is_decimal_facts(5) by auto
    qed
  qed
  have 4: "takeWhile (is_digit_in 10) s = s"
    using assms(2) is_decimal_facts(7) by simp
  show ?thesis by (simp add: parseInt_def Let_def 1 2 3 4 assms(1))
qed

lemma parseInt_padded: "parseInt (pad_start n (string_of_nat k)) = Some (int k)"
proof -
  have "pad_start n (string_of_nat k) \<noteq> []" by (simp add: pad_start_def string_of_nat_nonempty)
  moreover have "\<forall>c\<in>set (pad_start n (string_of_nat k)). is_decimal c"
    by (rule pad_start_decimal) (rule string_of_nat_decimal)
  ultimately have "parseInt (pad_start n (string_of_nat k))
      = Some (int (digits_value 10 (pad_start n (string_of_nat k))))"
    by (rule parseInt_decimal)
  then show ?thesis by (simp add: pad_start_def digits_value_zeros digits_value_string_of_nat)
qed

lemma split_by_once:
  assumes "\<forall>c\<in>set a. \<not> sep c" and "\<forall>c\<in>set b. \<not> sep c" and "sep x"
  shows "split_by sep (a @ x # b) = [a, b]"
  using assms by (induction a) (simp_all add: split_by_no_separator)

lemma parseDate_format:
  "parseDate (format_MM_yyyy m y) = Some (new_Date (Some (int y)) (Some (int m - 1)))"
proof -
  let ?a = "pad_start 2 (string_of_nat m)" and ?b = "pad_start 4 (string_of_nat y)"
  have da: "\<forall>c\<in>set ?a. is_decimal c" and db: "\<forall>c\<in>set ?b. is_decimal c"
    by (rule pad_start_decimal, rule string_of_nat_decimal)+
  have na: "?a \<noteq> []" and nb: "?b \<noteq> []" by (simp_all add: pad_start_def string_of_nat_nonempty)
  have "split_by (\<lambda>c. c = CHR ''-'' \<or> c = CHR ''/'') (?a @ CHR ''/'' # ?b) = [?a, ?b]"
    using da db is_decimal_facts(2,6) by (intro split_by_once) auto
  then show ?thesis using na nb by (simp add: parseDate_def format_MM_yyyy_def parseInt_padded)
qed

lemma parseDate_format_valid:
  assumes "1 \<le> m" "m \<le> 12" "100 \<le> y" "y \<le> 275759"
  shows "parseDate (format_MM_yyyy m y) = Some (Some (12 * int y + int m - 1))"
  using assms by (simp add: parseDate_format new_Date_def Let_def)

lemma format_examples:
  "format_MM_yyyy 7 2021 = ''07/2021''" "format_MM_yyyy 6 2021 = ''06/2021''"
  "toLowerCase ''PRESENT'' = ''present''"
  "parseDate ''07/2021'' = Some (Some 24258)" "parseDate ''06/2021'' = Some (Some 24257)"
  by code_simp+

text \<open>
  C7.  An edit of the start or end date of an entry is rejected when, with the edit
  applied, \<^verbatim>\<open>parseDate\<close> reads both dates and the start is the later one: the alert is shown
  and the list of entries stays as it is.  In particular this is so for two dates as the
  date picker writes them, month 1 to 12 and year 100 to 275759, of which the start is
  later in the calendar.  An end date that reads Present in any letter case is never
  rejected: the edit is stored.
\<close>

theorem updateExp_rejects_start_after_end:
  assumes "i < length (CreatePage.experience st)"
    and "field = Start_date \<or> field = End_date"
    and "entry = set_field (CreatePage.experience st ! i) field val"
  shows "(parseDate (ExpEntry.start_date entry) = Some (Some a)
            \<and> parseDate (ExpEntry.end_date entry) = Some (Some b) \<and> a > b \<longrightarrow>
          updateExp st i field val
            = Some (st\<lparr>CreatePage.alerts :=
                        CreatePage.alerts st @ [''Start date cannot be after end date.'']\<rparr>))
       \<and> (ExpEntry.start_date entry = format_MM_yyyy m1 y1
            \<and> ExpEntry.end_date entry = format_MM_yyyy m2 y2
            \<and> 1 \<le> m1 \<and> m1 \<le> 12 \<and> 1 \<le> m2 \<and> m2 \<le> 12
            \<and> 100 \<le> y1 \<and> y1 \<le> 275759 \<and> 100 \<le> y2 \<and> y2 \<le> 275759
            \<and> (y2 < y1 \<or> (y1 = y2 \<and> m2 < m1)) \<longrightarrow>
          updateExp st i field val
            = Some (st\<lparr>CreatePage.alerts :=
                        CreatePage.alerts st @ [''Start date cannot be after end date.'']\<rparr>))
       \<and> (toLowerCase (ExpEntry.end_date entry) = ''present'' \<longrightarrow>
          updateExp st i field val
            = Some (st\<lparr>CreatePage.experience := (CreatePage.experience st)[i := entry]\<rparr>))"
proof -
  have rej: "updateExp st i field val
            = Some (st\<lparr>CreatePage.alerts :=
                        CreatePage.alerts st @ [''Start date cannot be after end date.'']\<rparr>)"
    if s: "parseDate (ExpEntry.start_date entry) = Some (Some a')"
      and e: "parseDate (ExpEntry.end_date entry) = Some (Some b')" and gt: "a' > b'" for a' b'
  proof -
    have "ExpEntry.start_date entry \<noteq> []" using s parseDate_empty by auto
    moreover have "ExpEntry.end_date entry \<noteq> []" using e parseDate_empty by auto
    moreover have "toLowerCase (ExpEntry.end_date entry) \<noteq> ''present''"
      using e parseDate_present by fastforce
    ultimately show ?thesis
      using assms s e gt by (simp add: updateExp_def Let_def date_gt_def)
  qed
  have fmt: "updateExp st i field val
            = Some (st\<lparr>CreatePage.alerts :=
                        CreatePage.alerts st @ [''Start date cannot be after end date.'']\<rparr>)"
    if "ExpEntry.start_date entry = format_MM_yyyy m1 y1"
      and "ExpEntry.end_date entry = format_MM_yyyy m2 y2"
      and "1 \<le> m1" "m1 \<le> 12" "1 \<le> m2" "m2 \<le> 12"
      and "100 \<le> y1" "y1 \<le> 275759" "100 \<le> y2" "y2 \<le> 275759"
      and later: "y2 < y1 \<or> (y1 = y2 \<and> m2 < m1)"
  proof -
    have s: "parseDate (ExpEntry.start_date entry) = Some (Some (12 * int y1 + int m1 - 1))"
      using that by (simp add: parseDate_format_valid)
    have e: "parseDate (ExpEntry.end_date entry) = Some (Some (12 * int y2 + int m2 - 1))"
      using that by (simp add: parseDate_format_valid)
    have "12 * int y1 + int m1 - 1 > 12 * int y2 + int m2 - 1"
      using later \<open>m1 \<le> 12\<close> \<open>1 \<le> m1\<close> \<open>m2 \<le> 12\<close> \<open>1 \<le> m2\<close> by linarith
    with s e show ?thesis by (rule rej)
  qed
  have acc: "updateExp st i field val
            = Some (st\<lparr>CreatePage.experience := (CreatePage.experience st)[i := entry]\<rparr>)"
    if "toLowerCase (ExpEntry.end_date entry) = ''present''"
    using assms that by (simp add: updateExp_def Let_def)
  show ?thesis using rej[of a b] fmt acc by blast
qed

text \<open>The theorem at an entry from 03/2020 to 06/2021: a start of 07/2021 is rejected, and
  an end of PRESENT is stored.\<close>

theorem updateExp_rejects_start_after_end_witness:
  "parseDate ''07/2021'' = Some (Some 24258) \<and> parseDate ''06/2021'' = Some (Some 24257)
   \<and> format_MM_yyyy 7 2021 = ''07/2021'' \<and> format_MM_yyyy 6 2021 = ''06/2021''
   \<and> updateExp example_create 0 Start_date ''07/2021''
     = Some (example_create\<lparr>CreatePage.alerts := [''Start date cannot be after end date.'']\<rparr>)
   \<and> CreatePage.experience example_create = [example_exp]
   \<and> updateExp example_create 0 End_date ''PRESENT''
     = Some (example_create\<lparr>CreatePage.experience :=
               [example_exp\<lparr>ExpEntry.end_date := ''PRESENT''\<rparr>]\<rparr>)"
proof -
  have ex: "CreatePage.experience example_create = [example_exp]" "CreatePage.alerts example_create = []"
    by (simp_all add: example_create_def)
  have dates: "ExpEntry.start_date example_exp = ''03/2020''" "ExpEntry.end_date example_exp = ''06/2021''"
    by (simp_all add: example_exp_def)
  have 1: "0 < length (CreatePage.experience example_create)" by (simp add: ex)
  have 2: "Start_date = Start_date \<or> Start_date = End_date" by simp
  have 3: "End_date = Start_date \<or> End_date = End_date" by simp
  note A = updateExp_rejects_start_after_end[OF 1 2 refl, of "''07/2021''" 24258 24257 7 2021 6 2021]
  note B = updateExp_rejects_start_after_end[OF 1 3 refl, of "''PRESENT''"]
  have a: "updateExp example_create 0 Start_date ''07/2021''
     = Some (example_create\<lparr>CreatePage.alerts := [''Start date cannot be after end date.'']\<rparr>)"
    using A by (simp add: ex dates format_examples)
  have b: "updateExp example_create 0 End_date ''PRESENT''
     = Some (example_create\<lparr>CreatePage.experience :=
               [example_exp\<lparr>ExpEntry.end_date := ''PRESENT''\<rparr>]\<rparr>)"
    using B by (simp add: ex format_examples)
  show ?thesis using a b ex(1) format_examples by blast
qed


section \<open>What is shown for an end date\<close>

lemma join_contains:
  "x \<in> set xs \<Longrightarrow> \<exists>pre post. join sep xs = pre @ x @ post"
proof (induction sep xs rule: join.induct)
  case (1 sep)
  then show ?case by simp
next
  case (2 sep y)
  then have "join sep [y] = [] @ x @ []" by simp
  then show ?case by blast
next
  case (3 sep y z zs)
  show ?case
  proof (cases "x = y")
    case True
    then have "join sep (y # z # zs) = [] @ x @ (sep @ join sep (z # zs))" by simp
    then show ?thesis by blast
  next
    case False
    with 3 obtain pre post where "join sep (z # zs) = pre @ x @ post" by auto
    then have "join sep (y # z # zs) = (y @ sep @ pre) @ x @ post" by simp
    then show ?thesis by blast
  qed
qed

lemma experience_line_in_parts:
  assumes "e \<in> set exps" and "ExpEntry.job_title e \<noteq> [] \<or> ExpEntry.company e \<noteq> []"
  shows "experience_line e \<in> set (existing_resume_parts edus exps projs)"
proof -
  let ?filled = "filter (\<lambda>e. ExpEntry.job_title e \<noteq> [] \<or> ExpEntry.company e \<noteq> []) exps"
  have "e \<in> set ?filled" using assms by simp
  then have ne: "?filled \<noteq> []" by (metis empty_iff empty_set)
  have "experience_line e \<in> set (experience_lines e)" by (simp add: experience_lines_def)
  with \<open>e \<in> set ?filled\<close> have "experience_line e \<in> set (concat (map experience_lines ?filled))"
    by auto
  with ne show ?thesis by (simp add: existing_resume_parts_def Let_def)
qed

lemma plain_text_experience_item:
  "plain_text (experience_item x) =
     concat (map plain_text (text_opt (Some (ExperienceEntry.company x)) @ text_opt (ExperienceEntry.location x)
        @ text_opt (Some (ExperienceEntry.job_title x)) @ text_opt (Some (ExperienceEntry.start_date x))))
     @ ['' '' @ en_dash @ '' '', shown_end (ExperienceEntry.end_date x)]
     @ concat (map (\<lambda>r. concat (map plain_text (text_opt (Some r)))) (ExperienceEntry.responsibilities x))"
  by (simp add: experience_item_def shown_end_def or_else_def o_def split: option.splits)

text \<open>
  C8.  Every experience entry of the form that has a job title or a company is written into
  the existing-resume text as one line, and that line ends with the end date, or with the
  word Present when the end date is empty.  Every experience entry of a resume is rendered
  in the preview with its end date after the dash, or with the word Present when the end
  date is absent or empty.  A non-empty end date is shown as it is.
\<close>

theorem end_date_shown_or_present:
  "(e \<in> set exps \<and> (ExpEntry.job_title e \<noteq> [] \<or> ExpEntry.company e \<noteq> []) \<longrightarrow>
      (\<exists>pre post. buildExistingResumeText edus exps projs = Some (pre @ experience_line e @ post)))
   \<and> (\<exists>head. experience_line e = head @ '' '' @ en_dash @ '' '' @ shown_end (Some (ExpEntry.end_date e)))
   \<and> (x \<in> set (ResumeData.experience d) \<longrightarrow>
        (\<exists>before after. concat (map plain_text (experience_section d))
            = before @ ['' '' @ en_dash @ '' '', shown_end (ExperienceEntry.end_date x)] @ after))
   \<and> shown_end None = ''Present'' \<and> shown_end (Some []) = ''Present''
   \<and> (v \<noteq> [] \<longrightarrow> shown_end (Some v) = v)"
proof -
  have a: "\<exists>pre post. buildExistingResumeText edus exps projs = Some (pre @ experience_line e @ post)"
    if "e \<in> set exps" "ExpEntry.job_title e \<noteq> [] \<or> ExpEntry.company e \<noteq> []"
  proof -
    have m: "experience_line e \<in> set (existing_resume_parts edus exps projs)"
      using that by (rule experience_line_in_parts)
    then have "existing_resume_parts edus exps projs \<noteq> []" by auto
    then have "buildExistingResumeText edus exps projs
                 = Some (join [newline] (existing_resume_parts edus exps projs))"
      by (simp add: buildExistingResumeText_def Let_def)
    with join_contains[OF m, of "[newline]"] show ?thesis by auto
  qed
  have b: "\<exists>head. experience_line e = head @ '' '' @ en_dash @ '' '' @ shown_end (Some (ExpEntry.end_date e))"
  proof -
    have "experience_line e = (''- '' @ ExpEntry.job_title e @ '' at '' @ ExpEntry.company e
       @ (if ExpEntry.location e \<noteq> [] then '', '' @ ExpEntry.location e else [])
       @ '' | '' @ or_else (Some (ExpEntry.start_date e)) ''N/A'')
       @ '' '' @ en_dash @ '' '' @ shown_end (Some (ExpEntry.end_date e))"
      by (simp add: experience_line_def shown_end_def or_else_def)
    then show ?thesis by blast
  qed
  have c: "\<exists>before after. concat (map plain_text (experience_section d))
            = before @ ['' '' @ en_dash @ '' '', shown_end (ExperienceEntry.end_date x)] @ after"
    if "x \<in> set (ResumeData.experience d)"
  proof -
    from that obtain xs ys where xy: "ResumeData.experience d = xs @ x # ys"
      by (auto simp: in_set_conv_decomp)
    obtain A B where it: "plain_text (experience_item x)
        = A @ ['' '' @ en_dash @ '' '', shown_end (ExperienceEntry.end_date x)] @ B"
      using plain_text_experience_item by blast
    have "concat (map plain_text (experience_section d))
        = (''Experience'' # concat (map (\<lambda>y. plain_text (experience_item y)) xs) @ A)
          @ ['' '' @ en_dash @ '' '', shown_end (ExperienceEntry.end_date x)]
          @ (B @ concat (map (\<lambda>y. plain_text (experience_item y)) ys))"
      using xy it by (simp add: experience_section_def section_heading_def o_def)
    then show ?thesis by blast
  qed
  show ?thesis using a b c by (simp add: shown_end_def)
qed

text \<open>The theorem at an entry of the form and an entry of a resume without end date.\<close>

theorem end_date_shown_or_present_witness:
  "ongoing_exp \<in> set [ongoing_exp]
   \<and> ExpEntry.job_title ongoing_exp \<noteq> []
   \<and> (\<exists>pre post. buildExistingResumeText [] [ongoing_exp] []
                      = Some (pre @ experience_line ongoing_exp @ post))
   \<and> experience_line ongoing_exp = ''- Engineer at Acme | 03/2020 '' @ en_dash @ '' Present''
   \<and> ongoing_entry \<in> set (ResumeData.experience (emptyResume\<lparr>ResumeData.experience := [ongoing_entry]\<rparr>))
   \<and> (\<exists>before after.
         concat (map plain_text (experience_section (emptyResume\<lparr>ResumeData.experience := [ongoing_entry]\<rparr>)))
           = before @ ['' '' @ en_dash @ '' '', ''Present''] @ after)
   \<and> shown_end (Some ''06/2021'') = ''06/2021''"
proof -
  let ?d = "emptyResume\<lparr>ResumeData.experience := [ongoing_entry]\<rparr>"
  note T = end_date_shown_or_present[of ongoing_exp "[ongoing_exp]" "[]" "[]" ongoing_entry ?d "''06/2021''"]
  have 1: "ongoing_exp \<in> set [ongoing_exp]" by simp
  have 2: "ExpEntry.job_title ongoing_exp \<noteq> []" by (simp add: ongoing_exp_def)
  have 3: "ongoing_entry \<in> set (ResumeData.experience ?d)" by simp
  have 4: "ExperienceEntry.end_date ongoing_entry = None" by (simp add: ongoing_entry_def)
  have 5: "experience_line ongoing_exp = ''- Engineer at Acme | 03/2020 '' @ en_dash @ '' Present''"
    by code_simp
  have 6: "''06/2021'' \<noteq> []" by simp
  have a: "\<exists>pre post. buildExistingResumeText [] [ongoing_exp] []
                      = Some (pre @ experience_line ongoing_exp @ post)"
    using T 1 2 by blast
  have b: "\<exists>before after. concat (map plain_text (experience_section ?d))
           = before @ ['' '' @ en_dash @ '' '', shown_end (ExperienceEntry.end_date ongoing_entry)] @ after"
    using T 3 by blast
  have c: "shown_end (ExperienceEntry.end_date ongoing_entry) = ''Present''"
    using T 4 by simp
  have d: "shown_end (Some ''06/2021'') = ''06/2021''" using T 6 by blast
  show ?thesis using 1 2 3 5 a b c d by simp
qed


section \<open>Project links in the preview\<close>

lemma anchors_project_item:
  "anchors (project_item p) =
     (if hasLink p
      then [Elem ''a'' [(''href'', or_else (ProjectEntry.link p) []), (''target'', ''_blank''),
                       (''rel'', ''noreferrer''),
                       (''className'', ''text-blue-600 font-bold underline text-[9.5pt]'')]
              [Text ''GitHub Link'']]
      else [])"
  by (simp add: project_item_def Let_def text_opt_def)

lemma plain_text_project_item:
  "plain_text (project_item p) =
     (if ProjectEntry.title p \<noteq> [] then [ProjectEntry.title p] else [])
     @ (if join '', '' (ProjectEntry.technologies p) \<noteq> []
        then [''Technologies: '', join '', '' (ProjectEntry.technologies p)] else [])
     @ (if ProjectEntry.description p \<noteq> [] then [ProjectEntry.description p] else [])"
  by (simp add: project_item_def Let_def text_opt_def)

text \<open>
  C10.  A project is rendered with a hyperlink only when its link starts with http: a
  project whose link is not empty and does not start with http is rendered without any
  hyperlink.  The text rendered for a project outside the hyperlink does not depend on
  the link: it is the title, the technologies and the description, each when not empty.
  The hyperlinks of the projects section are those of its projects.
\<close>

theorem project_hyperlink_only_for_http:
  "(anchors (project_item p) \<noteq> [] \<longrightarrow> (\<exists>l. ProjectEntry.link p = Some l \<and> take 4 l = ''http''))
   \<and> (ProjectEntry.link p = Some l \<and> l \<noteq> [] \<and> take 4 l \<noteq> ''http'' \<longrightarrow> anchors (project_item p) = [])
   \<and> plain_text (project_item (p\<lparr>ProjectEntry.link := l'\<rparr>)) = plain_text (project_item p)
   \<and> plain_text (project_item p) =
       (if ProjectEntry.title p \<noteq> [] then [ProjectEntry.title p] else [])
       @ (if join '', '' (ProjectEntry.technologies p) \<noteq> []
          then [''Technologies: '', join '', '' (ProjectEntry.technologies p)] else [])
       @ (if ProjectEntry.description p \<noteq> [] then [ProjectEntry.description p] else [])
   \<and> concat (map anchors (projects_section d))
       = concat (map (\<lambda>q. anchors (project_item q)) (ResumeData.projects d))"
proof -
  have 1: "anchors (project_item p) \<noteq> [] \<longrightarrow> (\<exists>l. ProjectEntry.link p = Some l \<and> take 4 l = ''http'')"
    by (auto simp: anchors_project_item hasLink_def split: option.splits if_splits)
  have 2: "ProjectEntry.link p = Some l \<and> l \<noteq> [] \<and> take 4 l \<noteq> ''http'' \<longrightarrow> anchors (project_item p) = []"
    by (auto simp: anchors_project_item hasLink_def)
  have 3: "plain_text (project_item (p\<lparr>ProjectEntry.link := l'\<rparr>)) = plain_text (project_item p)"
    by (simp add: plain_text_project_item)
  have 4: "concat (map anchors (projects_section d))
       = concat (map (\<lambda>q. anchors (project_item q)) (ResumeData.projects d))"
    by (simp add: projects_section_def section_heading_def o_def)
  show ?thesis using 1 2 3 4 plain_text_project_item by blast
qed

text \<open>The theorem at a project whose link is a bare host name, and at the same project
  with an https link.\<close>

theorem project_hyperlink_only_for_http_witness:
  "anchors (project_item (linked_project (Some ''https://github.com/ada/solver''))) \<noteq> []
   \<and> take 4 ''https://github.com/ada/solver'' = ''http''
   \<and> take 4 ''github.com/ada/solver'' \<noteq> ''http''
   \<and> anchors (project_item (linked_project (Some ''github.com/ada/solver''))) = []
   \<and> plain_text (project_item (linked_project (Some ''github.com/ada/solver'')))
       = [''Solver'', ''Technologies: '', ''OCaml, C'', ''A SAT solver.'']"
proof -
  let ?p = "linked_project (Some ''github.com/ada/solver'')"
  note T = project_hyperlink_only_for_http[of ?p "''github.com/ada/solver''"]
  have 1: "ProjectEntry.link ?p = Some ''github.com/ada/solver''" by (simp add: linked_project_def)
  have 2: "take 4 ''github.com/ada/solver'' \<noteq> ''http''" by simp
  have 3: "anchors (project_item (linked_project (Some ''https://github.com/ada/solver''))) \<noteq> []"
    by code_simp
  have 4: "join '', '' (ProjectEntry.technologies ?p) = ''OCaml, C''" by code_simp
  have 5: "ProjectEntry.title ?p = ''Solver''" "ProjectEntry.description ?p = ''A SAT solver.''"
    by (simp_all add: linked_project_def)
  have a: "anchors (project_item ?p) = []" using T 1 2 by blast
  have b: "plain_text (project_item ?p) = [''Solver'', ''Technologies: '', ''OCaml, C'', ''A SAT solver.'']"
    using T by (simp add: 4 5)
  from project_hyperlink_only_for_http[of "linked_project (Some ''https://github.com/ada/solver'')"] 3
  have c: "take 4 ''https://github.com/ada/solver'' = ''http''" by (simp add: linked_project_def)
  show ?thesis using a b c 2 3 by blast
qed

end
